theory Spec2Isabelle
  imports Main
begin

section \<open>Values of the runtime\<close>

text \<open>
  The client (\<^verbatim>\<open>src/client.ts\<close>, class \<^verbatim>\<open>StreamableMCPClient\<close>) works on untyped JSON
  that arrives from the network. A parsed JSON value is a \<open>json\<close>; a JavaScript value
  that may also be \<^verbatim>\<open>undefined\<close> (a property that is absent) is a \<open>json option\<close>, with
  \<open>None\<close> for \<^verbatim>\<open>undefined\<close>.

  \<^item> A number is modelled as an integer: the request id, the HTTP status, the retry
    counter and the delays are integers far below \<open>2^53\<close>, where the arithmetic of
    JavaScript numbers is exact. \<open>JNum\<close> stands for such an integer; fractions, \<^verbatim>\<open>NaN\<close>
    and the infinities are not modelled.
  \<^item> A string is a sequence of UTF-16 code units, and \<^verbatim>\<open>length\<close> and \<^verbatim>\<open>slice\<close> count
    code units. The model writes one \<open>char\<close> per code unit; the chunking functions are
    polymorphic in the element type.
  \<^item> An object is the list of its own enumerable properties in enumeration order (the
    order of \<^verbatim>\<open>Object.keys\<close>), with distinct keys.
\<close>

datatype json =
    JNull
  | JBool bool
  | JNum int
  | JStr string
  | JArr "json list"
  | JObj "(string \<times> json) list"

text \<open>The truthiness test that \<^verbatim>\<open>if (v)\<close>, \<^verbatim>\<open>!v\<close>, \<^verbatim>\<open>a && b\<close> and \<^verbatim>\<open>a || b\<close> apply.\<close>

fun truthy :: "json option \<Rightarrow> bool" where
  "truthy None = False"
| "truthy (Some JNull) = False"
| "truthy (Some (JBool b)) = b"
| "truthy (Some (JNum n)) = (n \<noteq> 0)"
| "truthy (Some (JStr s)) = (s \<noteq> [])"
| "truthy (Some (JArr xs)) = True"
| "truthy (Some (JObj kvs)) = True"

text \<open>
  Anything thrown: an error object with the fields the client inspects.
  \<open>err_response\<close> is the \<^verbatim>\<open>status\<close> of \<^verbatim>\<open>error.response\<close>, when the error has a response.
\<close>

record js_error =
  err_name :: string
  err_code :: "string option"
  err_response :: "int option"
  err_message :: string

definition Error :: "string \<Rightarrow> js_error" where
  "Error m = \<lparr>err_name = ''Error'', err_code = None, err_response = None, err_message = m\<rparr>"

definition TypeError :: "string \<Rightarrow> js_error" where
  "TypeError m = \<lparr>err_name = ''TypeError'', err_code = None, err_response = None, err_message = m\<rparr>"

definition quote1 :: "string \<Rightarrow> string" where
  "quote1 s = [CHR 0x27] @ s @ [CHR 0x27]"

text \<open>
  Reading a property \<^verbatim>\<open>v.k\<close>. On \<^verbatim>\<open>undefined\<close> and \<^verbatim>\<open>null\<close> it throws a TypeError; on an
  object it is the own property, or \<^verbatim>\<open>undefined\<close>; on every other value it is
  \<^verbatim>\<open>undefined\<close>. The client reads only \<^verbatim>\<open>content\<close>, \<^verbatim>\<open>text\<close>, \<^verbatim>\<open>type\<close>, \<^verbatim>\<open>error\<close>,
  \<^verbatim>\<open>result\<close>, \<^verbatim>\<open>tools\<close>, \<^verbatim>\<open>code\<close> and \<^verbatim>\<open>message\<close> this way, and no prototype of a
  JSON value has a property of one of these names.
\<close>

fun property :: "json option \<Rightarrow> string \<Rightarrow> js_error + json option" where
  "property None k =
     Inl (TypeError (''Cannot read properties of undefined (reading '' @ quote1 k @ '')''))"
| "property (Some JNull) k =
     Inl (TypeError (''Cannot read properties of null (reading '' @ quote1 k @ '')''))"
| "property (Some (JObj kvs)) k = Inr (map_of kvs k)"
| "property (Some v) k = Inr None"

subsection \<open>Numbers and values as text\<close>

definition digit :: "nat \<Rightarrow> char" where
  "digit d = ''0123456789abcdef'' ! d"

fun decimal :: "nat \<Rightarrow> string" where
  "decimal n = (if 10 \<le> n then decimal (n div 10) @ [digit (n mod 10)] else [digit n])"

text \<open>\<^verbatim>\<open>String(n)\<close> of an integer \<open>n\<close>.\<close>

definition Number_toString :: "int \<Rightarrow> string" where
  "Number_toString i = (if 0 \<le> i then decimal (nat i) else CHR ''-'' # decimal (nat (- i)))"

fun intercalate :: "'a list \<Rightarrow> 'a list list \<Rightarrow> 'a list" where
  "intercalate sep [] = []"
| "intercalate sep [x] = x"
| "intercalate sep (x # y # ys) = x @ sep @ intercalate sep (y # ys)"

text \<open>
  \<^verbatim>\<open>String(v)\<close>, as a template literal \<^verbatim>\<open>`${v}`\<close> applies it. An array is its elements
  joined by commas, \<^verbatim>\<open>null\<close> elements as the empty string. An object is
  \<^verbatim>\<open>[object Object]\<close>, unless it has an own property \<^verbatim>\<open>toString\<close>: that property is JSON,
  so not callable, and the conversion throws.
\<close>

fun ToString :: "json \<Rightarrow> js_error + string"
  and ToString_elements :: "json list \<Rightarrow> js_error + string list" where
  "ToString JNull = Inr ''null''"
| "ToString (JBool b) = Inr (if b then ''true'' else ''false'')"
| "ToString (JNum n) = Inr (Number_toString n)"
| "ToString (JStr s) = Inr s"
| "ToString (JArr xs) =
     (case ToString_elements xs of Inl e \<Rightarrow> Inl e | Inr ss \<Rightarrow> Inr (intercalate '','' ss))"
| "ToString (JObj kvs) =
     (if ''toString'' \<in> set (map fst kvs)
      then Inl (TypeError ''Cannot convert object to primitive value'')
      else Inr ''[object Object]'')"
| "ToString_elements [] = Inr []"
| "ToString_elements (x # xs) =
     (case (if x = JNull then Inr [] else ToString x) of
        Inl e \<Rightarrow> Inl e
      | Inr s \<Rightarrow> (case ToString_elements xs of Inl e \<Rightarrow> Inl e | Inr ss \<Rightarrow> Inr (s # ss)))"

definition String :: "json option \<Rightarrow> js_error + string" where
  "String v = (case v of None \<Rightarrow> Inr ''undefined'' | Some j \<Rightarrow> ToString j)"

subsection \<open>\<^verbatim>\<open>JSON.stringify(value, null, 2)\<close>\<close>

definition hex4 :: "nat \<Rightarrow> string" where
  "hex4 n = map digit [n div 4096 mod 16, n div 256 mod 16, n div 16 mod 16, n mod 16]"

definition quote_char :: "char \<Rightarrow> string" where
  "quote_char c =
     (if c = CHR 0x08 then [CHR 0x5C, CHR ''b'']
      else if c = CHR 0x09 then [CHR 0x5C, CHR ''t'']
      else if c = CHR 0x0A then [CHR 0x5C, CHR ''n'']
      else if c = CHR 0x0C then [CHR 0x5C, CHR ''f'']
      else if c = CHR 0x0D then [CHR 0x5C, CHR ''r'']
      else if c = CHR 0x22 then [CHR 0x5C, CHR 0x22]
      else if c = CHR 0x5C then [CHR 0x5C, CHR 0x5C]
      else if (of_char c :: nat) < 32 then [CHR 0x5C, CHR ''u''] @ hex4 (of_char c)
      else [c])"

definition QuoteJSONString :: "string \<Rightarrow> string" where
  "QuoteJSONString s = [CHR 0x22] @ concat (map quote_char s) @ [CHR 0x22]"

text \<open>
  The serialisation with a gap of two spaces: \<open>ind\<close> is the current indentation. Empty
  arrays and objects are \<^verbatim>\<open>[]\<close> and \<^verbatim>\<open>{}\<close>; the others put each member on a line of its
  own.
\<close>

fun SerializeJSON :: "string \<Rightarrow> json \<Rightarrow> string"
  and SerializeJSON_elements :: "string \<Rightarrow> json list \<Rightarrow> string list"
  and SerializeJSON_members :: "string \<Rightarrow> (string \<times> json) list \<Rightarrow> string list" where
  "SerializeJSON ind JNull = ''null''"
| "SerializeJSON ind (JBool b) = (if b then ''true'' else ''false'')"
| "SerializeJSON ind (JNum n) = Number_toString n"
| "SerializeJSON ind (JStr s) = QuoteJSONString s"
| "SerializeJSON ind (JArr xs) =
     (if xs = [] then ''[]''
      else ''['' @ [CHR 0x0A] @ (ind @ ''  '')
        @ intercalate ('','' @ [CHR 0x0A] @ (ind @ ''  '')) (SerializeJSON_elements (ind @ ''  '') xs)
        @ [CHR 0x0A] @ ind @ '']'')"
| "SerializeJSON ind (JObj kvs) =
     (if kvs = [] then ''{}''
      else ''{'' @ [CHR 0x0A] @ (ind @ ''  '')
        @ intercalate ('','' @ [CHR 0x0A] @ (ind @ ''  '')) (SerializeJSON_members (ind @ ''  '') kvs)
        @ [CHR 0x0A] @ ind @ ''}'')"
| "SerializeJSON_elements ind [] = []"
| "SerializeJSON_elements ind (x # xs) = SerializeJSON ind x # SerializeJSON_elements ind xs"
| "SerializeJSON_members ind [] = []"
| "SerializeJSON_members ind ((k, v) # kvs) =
     (QuoteJSONString k @ '': '' @ SerializeJSON ind v) # SerializeJSON_members ind kvs"

definition JSON_stringify :: "json \<Rightarrow> string" where
  "JSON_stringify v = SerializeJSON [] v"

section \<open>The platform: network, parser, event trace\<close>

text \<open>
  \<^verbatim>\<open>fetch\<close> resolves with a response for every HTTP status and rejects with an error
  when no response arrives; \<open>ok\<close> is the \<^verbatim>\<open>ok\<close> flag of the response, true for the
  statuses 200 to 299. The body is absent (\<^verbatim>\<open>null\<close>), or it is read to the end as a text,
  or reading it raises an error.
\<close>

datatype body = Null_body | Complete string | Broken js_error

record response =
  status :: int
  statusText :: string
  body :: body

definition ok :: "response \<Rightarrow> bool" where
  "ok r = (200 \<le> status r \<and> status r < 300)"

text \<open>
  The registry is a plain object: \<^verbatim>\<open>this.servers[name]\<close> finds an own property, or else a
  member inherited from \<^verbatim>\<open>Object.prototype\<close> (a function, or for \<^verbatim>\<open>__proto__\<close> the
  prototype itself), or else \<^verbatim>\<open>undefined\<close>.
\<close>

datatype member = Absent | Own string | Inherited string

definition Object_prototype :: "string list" where
  "Object_prototype =
     [''constructor'', ''__defineGetter__'', ''__defineSetter__'', ''hasOwnProperty'',
      ''__lookupGetter__'', ''__lookupSetter__'', ''isPrototypeOf'', ''propertyIsEnumerable'',
      ''toString'', ''valueOf'', ''__proto__'', ''toLocaleString'']"

definition lookup :: "(string \<times> string) list \<Rightarrow> string \<Rightarrow> member" where
  "lookup obj k =
     (case map_of obj k of
        Some v \<Rightarrow> Own v
      | None \<Rightarrow> if k \<in> set Object_prototype then Inherited k else Absent)"

fun truthy_member :: "member \<Rightarrow> bool" where
  "truthy_member Absent = False"
| "truthy_member (Own v) = (v \<noteq> [])"
| "truthy_member (Inherited k) = True"

text \<open>\<^verbatim>\<open>String(m)\<close> of a member, with native functions as V8 prints them.\<close>

fun String_member :: "member \<Rightarrow> string" where
  "String_member Absent = ''undefined''"
| "String_member (Own v) = v"
| "String_member (Inherited k) =
     (if k = ''__proto__'' then ''[object Object]''
      else if k = ''constructor'' then ''function Object() { [native code] }''
      else ''function '' @ k @ ''() { [native code] }'')"

record http_request =
  req_url :: member
  req_payload :: json

datatype fetch_outcome = Resolved response | Rejected js_error

text \<open>
  What the client does not decide is a parameter. \<open>fetch p n req\<close> is the outcome of the
  \<open>n\<close>-th call of \<^verbatim>\<open>fetch\<close> (counted from 0) when it sends \<open>req\<close>; \<open>JSON_parse\<close> is
  \<^verbatim>\<open>JSON.parse\<close> and \<open>json_of_text\<close> is the parse inside \<^verbatim>\<open>response.json()\<close>, each
  with the error it raises on a text that is not JSON; \<open>positive_number\<close> says whether a
  string, converted to a number, is greater than zero.
\<close>

record platform =
  fetch :: "nat \<Rightarrow> http_request \<Rightarrow> fetch_outcome"
  JSON_parse :: "string \<Rightarrow> js_error + json"
  json_of_text :: "string \<Rightarrow> js_error + json"
  positive_number :: "string \<Rightarrow> bool"

text \<open>
  What an observer sees, in order: a call of \<^verbatim>\<open>fetch\<close>, a call of \<^verbatim>\<open>delay(ms)\<close>, a call
  of the consumer's \<^verbatim>\<open>onData(chunk)\<close>. Console output is left out. The callback only
  records its argument.
\<close>

datatype event = Fetch http_request | Delay nat | OnData json

fun is_Fetch :: "event \<Rightarrow> bool" where
  "is_Fetch (Fetch r) = True"
| "is_Fetch e = False"

section \<open>The client\<close>

record client =
  servers :: "(string \<times> string) list"
  requestId :: int
  timeout :: int
  maxRetries :: int

record options =
  opt_timeout :: "int option"
  opt_maxRetries :: "int option"

record state =
  this :: client
  trace :: "event list"

definition attempts :: "state \<Rightarrow> nat" where
  "attempts s = length (filter is_Fetch (trace s))"

definition emit :: "event list \<Rightarrow> state \<Rightarrow> state" where
  "emit evs s = s\<lparr>trace := trace s @ evs\<rparr>"

text \<open>\<^verbatim>\<open>a || d\<close> on an optional number: \<open>d\<close> when \<open>a\<close> is absent or zero.\<close>

definition or_default :: "int option \<Rightarrow> int \<Rightarrow> int" where
  "or_default a d = (case a of None \<Rightarrow> d | Some n \<Rightarrow> if n \<noteq> 0 then n else d)"

definition constructor :: "(string \<times> string) list \<Rightarrow> options \<Rightarrow> client" where
  "constructor srv opts =
     \<lparr>servers = srv, requestId = 1,
      timeout = or_default (opt_timeout opts) 30000,
      maxRetries = or_default (opt_maxRetries opts) 3\<rparr>"

definition isRetryableError :: "js_error \<Rightarrow> bool" where
  "isRetryableError e =
     (err_name e = ''AbortError'' \<or> err_code e = Some ''ECONNRESET''
      \<or> err_code e = Some ''ETIMEDOUT''
      \<or> (case err_response e of None \<Rightarrow> False | Some st \<Rightarrow> 500 \<le> st))"

function makeRequest ::
  "platform \<Rightarrow> member \<Rightarrow> json \<Rightarrow> nat \<Rightarrow> state \<Rightarrow> (js_error + response) \<times> state" where
  "makeRequest p url payload retryCount s =
     (case fetch p (attempts s) \<lparr>req_url = url, req_payload = payload\<rparr> of
        Resolved r \<Rightarrow> (Inr r, emit [Fetch \<lparr>req_url = url, req_payload = payload\<rparr>] s)
      | Rejected e \<Rightarrow>
          if int retryCount < maxRetries (this s) \<and> isRetryableError e
          then makeRequest p url payload (retryCount + 1)
                 (emit [Fetch \<lparr>req_url = url, req_payload = payload\<rparr>,
                        Delay (2 ^ retryCount * 1000)] s)
          else (Inl e, emit [Fetch \<lparr>req_url = url, req_payload = payload\<rparr>] s))"
  by pat_completeness auto
termination
  by (relation "measure (\<lambda>(p, url, payload, retryCount, s). nat (maxRetries (this s) - int retryCount))")
     (auto simp: emit_def)

definition validateServerName :: "client \<Rightarrow> string \<Rightarrow> js_error + unit" where
  "validateServerName c serverName =
     (if \<not> truthy_member (lookup (servers c) serverName)
      then Inl (Error (''Server '' @ quote1 serverName @ '' not found. Available servers: ''
                  @ intercalate '', '' (map fst (servers c))))
      else Inr ())"

text \<open>\<^verbatim>\<open>this.requestId++\<close>: the old value, and the counter one higher.\<close>

definition next_id :: "state \<Rightarrow> state" where
  "next_id s = s\<lparr>this := (this s)\<lparr>requestId := requestId (this s) + 1\<rparr>\<rparr>"

text \<open>\<^verbatim>\<open>${error.message || error}\<close>: the message, or for an empty message the error as text.\<close>

definition message_or_error :: "js_error \<Rightarrow> string" where
  "message_or_error e = (if err_message e \<noteq> [] then err_message e else err_name e)"

definition response_text :: "response \<Rightarrow> js_error + string" where
  "response_text r =
     (case body r of Null_body \<Rightarrow> Inr [] | Complete t \<Rightarrow> Inr t | Broken e \<Rightarrow> Inl e)"

definition response_json :: "platform \<Rightarrow> response \<Rightarrow> js_error + json" where
  "response_json p r = (case response_text r of Inl e \<Rightarrow> Inl e | Inr t \<Rightarrow> json_of_text p t)"

definition http_error :: "response \<Rightarrow> js_error" where
  "http_error r =
     (case response_text r of
        Inl e \<Rightarrow> e
      | Inr b \<Rightarrow> Error (''HTTP '' @ Number_toString (status r) @ '': '' @ statusText r
                        @ ''. Body: '' @ b))"

text \<open>
  \<^verbatim>\<open>`<label> (${err.code}): ${err.message}`\<close> for a truthy \<open>err\<close>; the conversion of
  either part to text may throw.
\<close>

definition rpc_error :: "string \<Rightarrow> json option \<Rightarrow> js_error" where
  "rpc_error label err =
     (case property err ''code'' of
        Inl e \<Rightarrow> e
      | Inr c \<Rightarrow>
          (case String c of
             Inl e \<Rightarrow> e
           | Inr cs \<Rightarrow>
               (case property err ''message'' of
                  Inl e \<Rightarrow> e
                | Inr m \<Rightarrow>
                    (case String m of
                       Inl e \<Rightarrow> e
                     | Inr ms \<Rightarrow> Error (label @ '' ('' @ cs @ ''): '' @ ms)))))"

text \<open>The \<^verbatim>\<open>length\<close> property of a value, as \<^verbatim>\<open>v.length\<close> reads it.\<close>

fun length_of :: "json \<Rightarrow> js_error + json option" where
  "length_of JNull = Inl (TypeError (''Cannot read properties of null (reading '' @ quote1 ''length'' @ '')''))"
| "length_of (JStr s) = Inr (Some (JNum (int (length s))))"
| "length_of (JArr xs) = Inr (Some (JNum (int (length xs))))"
| "length_of (JObj kvs) = Inr (map_of kvs ''length'')"
| "length_of v = Inr None"

definition tools_request :: "int \<Rightarrow> json" where
  "tools_request i =
     JObj [(''jsonrpc'', JStr ''2.0''), (''id'', JNum i), (''method'', JStr ''tools/list''),
           (''params'', JObj [])]"

text \<open>\<^verbatim>\<open>t || []\<close>.\<close>

definition or_empty :: "json option \<Rightarrow> json" where
  "or_empty t = (case t of None \<Rightarrow> JArr [] | Some v \<Rightarrow> if truthy (Some v) then v else JArr [])"

text \<open>
  The \<^verbatim>\<open>try\<close> block of \<^verbatim>\<open>listTools\<close>. With \<^verbatim>\<open>?.\<close>, a \<^verbatim>\<open>result\<close> that is absent or
  \<^verbatim>\<open>null\<close> has no \<^verbatim>\<open>tools\<close>. The line for the console reads \<^verbatim>\<open>tools.length\<close> and converts
  it to text, which can throw.
\<close>

definition listTools_try :: "platform \<Rightarrow> string \<Rightarrow> member \<Rightarrow> state \<Rightarrow> (js_error + json) \<times> state" where
  "listTools_try p serverName serverUrl s =
     (case makeRequest p serverUrl (tools_request (requestId (this s))) 0 (next_id s) of
        (Inl e, s') \<Rightarrow> (Inl e, s')
      | (Inr r, s') \<Rightarrow>
          if \<not> ok r then (Inl (http_error r), s')
          else
            (case response_json p r of
               Inl e \<Rightarrow> (Inl e, s')
             | Inr result \<Rightarrow>
                 (case property (Some result) ''error'' of
                    Inl e \<Rightarrow> (Inl e, s')
                  | Inr err \<Rightarrow>
                      if truthy err then (Inl (rpc_error ''JSON-RPC Error'' err), s')
                      else
                        (case property (Some result) ''result'' of
                           Inl e \<Rightarrow> (Inl e, s')
                         | Inr res \<Rightarrow>
                             (case (if res = None \<or> res = Some JNull then Inr None
                                    else property res ''tools'') of
                                Inl e \<Rightarrow> (Inl e, s')
                              | Inr t \<Rightarrow>
                                  (case length_of (or_empty t) of
                                     Inl e \<Rightarrow> (Inl e, s')
                                   | Inr n \<Rightarrow>
                                       (case String n of
                                          Inl e \<Rightarrow> (Inl e, s')
                                        | Inr shown \<Rightarrow> (Inr (or_empty t), s'))))))))"

definition listTools :: "platform \<Rightarrow> string \<Rightarrow> state \<Rightarrow> (js_error + json) \<times> state" where
  "listTools p serverName s =
     (case validateServerName (this s) serverName of
        Inl e \<Rightarrow> (Inl e, s)
      | Inr u \<Rightarrow>
          (case listTools_try p serverName (lookup (servers (this s)) serverName) s of
             (Inl e, s') \<Rightarrow>
               (Inl (Error (''Failed to fetch tools from '' @ serverName @ '' (''
                       @ String_member (lookup (servers (this s)) serverName) @ ''): ''
                       @ message_or_error e)), s')
           | (Inr tools, s') \<Rightarrow> (Inr tools, s')))"

section \<open>Normalising and streaming a tool result\<close>

text \<open>
  \<^verbatim>\<open>streamText\<close> is only ever called with two arguments, so its third one,
  \<^verbatim>\<open>chunkSize\<close>, always has its default.
\<close>

definition chunkSize :: nat where
  "chunkSize = 50"

text \<open>\<^verbatim>\<open>xs.slice(a, b)\<close> of a string or an array, for \<open>0 \<le> a \<le> b\<close>.\<close>

definition slice :: "'a list \<Rightarrow> nat \<Rightarrow> nat \<Rightarrow> 'a list" where
  "slice xs a b = take (b - a) (drop a xs)"

text \<open>The chunks that the loop of \<^verbatim>\<open>streamText\<close> cuts, from index \<open>i\<close> on.\<close>

function chunks_from :: "'a list \<Rightarrow> nat \<Rightarrow> 'a list list" where
  "chunks_from text i =
     (if i < length text
      then slice text i (i + chunkSize) # chunks_from text (i + chunkSize)
      else [])"
  by pat_completeness auto
termination
  by (relation "measure (\<lambda>(text, i). length text - i)") (auto simp: chunkSize_def)

text \<open>Each chunk goes to \<^verbatim>\<open>onData\<close>, followed by \<^verbatim>\<open>delay(10)\<close>.\<close>

definition deliver :: "json list \<Rightarrow> event list" where
  "deliver cs = concat (map (\<lambda>c. [OnData c, Delay 10]) cs)"

text \<open>
  The loop test \<^verbatim>\<open>0 < text.length\<close> when \<^verbatim>\<open>text\<close> is not a string or an array: the
  \<^verbatim>\<open>length\<close> is converted to a number; \<^verbatim>\<open>undefined\<close> and a plain object are \<^verbatim>\<open>NaN\<close>.
\<close>

fun zero_less :: "platform \<Rightarrow> json option \<Rightarrow> js_error + bool" where
  "zero_less p None = Inr False"
| "zero_less p (Some JNull) = Inr False"
| "zero_less p (Some (JBool b)) = Inr b"
| "zero_less p (Some (JNum n)) = Inr (0 < n)"
| "zero_less p (Some (JStr t)) = Inr (positive_number p t)"
| "zero_less p (Some (JArr xs)) =
     (case ToString (JArr xs) of Inl e \<Rightarrow> Inl e | Inr t \<Rightarrow> Inr (positive_number p t))"
| "zero_less p (Some (JObj kvs)) =
     (case ToString (JObj kvs) of Inl e \<Rightarrow> Inl e | Inr t \<Rightarrow> Inr False)"

text \<open>
  \<^verbatim>\<open>streamText(text, onData)\<close>. The parameter is declared a string, but the value comes
  from untyped JSON: an array is sliced like a string; a number or a boolean has no
  \<^verbatim>\<open>length\<close>, so the loop does not run; an object with a positive \<^verbatim>\<open>length\<close> has no
  function \<^verbatim>\<open>slice\<close>.
\<close>

definition streamText :: "platform \<Rightarrow> json \<Rightarrow> state \<Rightarrow> (js_error + unit) \<times> state" where
  "streamText p text s =
     (case text of
        JStr t \<Rightarrow> (Inr (), emit (deliver (map JStr (chunks_from t 0))) s)
      | JArr xs \<Rightarrow> (Inr (), emit (deliver (map JArr (chunks_from xs 0))) s)
      | v \<Rightarrow>
          (case length_of v of
             Inl e \<Rightarrow> (Inl e, s)
           | Inr n \<Rightarrow>
               (case zero_less p n of
                  Inl e \<Rightarrow> (Inl e, s)
                | Inr positive \<Rightarrow>
                    if positive then (Inl (TypeError ''text.slice is not a function''), s)
                    else (Inr (), s))))"

fun isArray :: "json option \<Rightarrow> bool" where
  "isArray (Some (JArr xs)) = True"
| "isArray v = False"

fun elements :: "json option \<Rightarrow> json list" where
  "elements (Some (JArr xs)) = xs"
| "elements v = []"

text \<open>The \<^verbatim>\<open>for\<close> loop over \<^verbatim>\<open>result.content\<close>.\<close>

fun streamItems :: "platform \<Rightarrow> json list \<Rightarrow> state \<Rightarrow> (js_error + unit) \<times> state" where
  "streamItems p [] s = (Inr (), s)"
| "streamItems p (item # items) s =
     (case property (Some item) ''type'' of
        Inl e \<Rightarrow> (Inl e, s)
      | Inr ty \<Rightarrow>
          if ty = Some (JStr ''text'')
          then
            (case property (Some item) ''text'' of
               Inl e \<Rightarrow> (Inl e, s)
             | Inr None \<Rightarrow> streamItems p items s
             | Inr (Some t) \<Rightarrow>
                 if truthy (Some t)
                 then
                   (case streamText p t s of
                      (Inl e, s') \<Rightarrow> (Inl e, s')
                    | (Inr u, s') \<Rightarrow> streamItems p items s')
                 else streamItems p items s)
          else streamItems p items s)"

text \<open>
  The last branch: \<^verbatim>\<open>streamText(JSON.stringify(result, null, 2), onData)\<close>. Of \<^verbatim>\<open>undefined\<close>
  the serialisation is \<^verbatim>\<open>undefined\<close>, which has no \<^verbatim>\<open>length\<close>.
\<close>

definition fallback :: "platform \<Rightarrow> json option \<Rightarrow> state \<Rightarrow> (js_error + unit) \<times> state" where
  "fallback p result s =
     (case result of
        None \<Rightarrow>
          (Inl (TypeError (''Cannot read properties of undefined (reading ''
                  @ quote1 ''length'' @ '')'')), s)
      | Some v \<Rightarrow> streamText p (JStr (JSON_stringify v)) s)"

text \<open>
  \<^verbatim>\<open>processToolResponse(result, onData)\<close>. Reading \<^verbatim>\<open>result.content\<close> throws when the
  result is \<^verbatim>\<open>undefined\<close> or \<^verbatim>\<open>null\<close>.
\<close>

definition processToolResponse ::
  "platform \<Rightarrow> json option \<Rightarrow> state \<Rightarrow> (js_error + unit) \<times> state" where
  "processToolResponse p result s =
     (case property result ''content'' of
        Inl e \<Rightarrow> (Inl e, s)
      | Inr content \<Rightarrow>
          if truthy content \<and> isArray content then streamItems p (elements content) s
          else
            (case property result ''text'' of
               Inl e \<Rightarrow> (Inl e, s)
             | Inr (Some t) \<Rightarrow>
                 if truthy (Some t) then streamText p t s else fallback p result s
             | Inr None \<Rightarrow> fallback p result s))"

definition call_request :: "int \<Rightarrow> string \<Rightarrow> json \<Rightarrow> json" where
  "call_request i tool args =
     JObj [(''jsonrpc'', JStr ''2.0''), (''id'', JNum i), (''method'', JStr ''tools/call''),
           (''params'', JObj [(''name'', JStr tool), (''arguments'', args)])]"

text \<open>The \<^verbatim>\<open>try\<close> block of \<^verbatim>\<open>callToolStream\<close>.\<close>

definition callToolStream_try ::
  "platform \<Rightarrow> string \<Rightarrow> json \<Rightarrow> member \<Rightarrow> state \<Rightarrow> (js_error + unit) \<times> state" where
  "callToolStream_try p tool args serverUrl s =
     (case makeRequest p serverUrl (call_request (requestId (this s)) tool args) 0 (next_id s) of
        (Inl e, s') \<Rightarrow> (Inl e, s')
      | (Inr r, s') \<Rightarrow>
          if \<not> ok r then (Inl (http_error r), s')
          else
            (case body r of
               Null_body \<Rightarrow> (Inl (Error ''No response body from server''), s')
             | Broken e \<Rightarrow> (Inl e, s')
             | Complete buffer \<Rightarrow>
                 (case JSON_parse p buffer of
                    Inl parseError \<Rightarrow>
                      (Inl (Error (''Invalid JSON response: '' @ message_or_error parseError
                              @ ''. Response: '' @ take 200 buffer @ ''...'')), s')
                  | Inr result \<Rightarrow>
                      (case property (Some result) ''error'' of
                         Inl e \<Rightarrow> (Inl e, s')
                       | Inr err \<Rightarrow>
                           if truthy err then (Inl (rpc_error ''Tool Error'' err), s')
                           else
                             (case property (Some result) ''result'' of
                                Inl e \<Rightarrow> (Inl e, s')
                              | Inr res \<Rightarrow> processToolResponse p res s')))))"

definition callToolStream ::
  "platform \<Rightarrow> string \<Rightarrow> string \<Rightarrow> json \<Rightarrow> state \<Rightarrow> (js_error + unit) \<times> state" where
  "callToolStream p serverName tool args s =
     (case validateServerName (this s) serverName of
        Inl e \<Rightarrow> (Inl e, s)
      | Inr u \<Rightarrow>
          (case callToolStream_try p tool args (lookup (servers (this s)) serverName) s of
             (Inl e, s') \<Rightarrow>
               (Inl (Error (''Failed to call tool '' @ quote1 tool @ '' on '' @ serverName
                       @ '': '' @ message_or_error e)), s')
           | (Inr u', s') \<Rightarrow> (Inr (), s')))"

definition getServerNames :: "client \<Rightarrow> string list" where
  "getServerNames c = map fst (servers c)"

section \<open>Sequences of calls, and what a trace shows\<close>

text \<open>
  The two public operations, as one step on the state. A failed call leaves the client
  usable, so calls follow each other whatever their outcome.
\<close>

datatype call = ListTools string | CallToolStream string string json

fun perform :: "platform \<Rightarrow> call \<Rightarrow> state \<Rightarrow> state" where
  "perform p (ListTools serverName) s = snd (listTools p serverName s)"
| "perform p (CallToolStream serverName tool args) s = snd (callToolStream p serverName tool args s)"

definition run :: "platform \<Rightarrow> call list \<Rightarrow> state \<Rightarrow> state" where
  "run p cs s = foldl (\<lambda>s' c. perform p c s') s cs"

definition fresh :: "(string \<times> string) list \<Rightarrow> options \<Rightarrow> state" where
  "fresh srv opts = \<lparr>this = constructor srv opts, trace = []\<rparr>"

text \<open>The arguments of the \<^verbatim>\<open>onData\<close> calls, in order, and the text they add up to.\<close>

definition onData_calls :: "event list \<Rightarrow> json list" where
  "onData_calls evs = concat (map (\<lambda>e. case e of OnData c \<Rightarrow> [c] | _ \<Rightarrow> []) evs)"

definition streamed :: "event list \<Rightarrow> string" where
  "streamed evs = concat (map (\<lambda>c. case c of JStr t \<Rightarrow> t | _ \<Rightarrow> []) (onData_calls evs))"

text \<open>The requests that went to \<^verbatim>\<open>fetch\<close>, the ids they carry, and the time slept.\<close>

definition fetches :: "event list \<Rightarrow> http_request list" where
  "fetches evs = concat (map (\<lambda>e. case e of Fetch r \<Rightarrow> [r] | _ \<Rightarrow> []) evs)"

definition id_of :: "json \<Rightarrow> int list" where
  "id_of payload = (case property (Some payload) ''id'' of Inr (Some (JNum i)) \<Rightarrow> [i] | _ \<Rightarrow> [])"

definition request_ids :: "event list \<Rightarrow> int list" where
  "request_ids evs = concat (map (\<lambda>r. id_of (req_payload r)) (fetches evs))"

definition total_delay :: "event list \<Rightarrow> nat" where
  "total_delay evs = sum_list (map (\<lambda>e. case e of Delay ms \<Rightarrow> ms | _ \<Rightarrow> 0) evs)"

text \<open>The events of \<open>k\<close> failed attempts, each followed by its backoff, and one more attempt.\<close>

definition backoffs :: "http_request \<Rightarrow> nat \<Rightarrow> nat \<Rightarrow> event list" where
  "backoffs req retryCount k =
     concat (map (\<lambda>i. [Fetch req, Delay (2 ^ (retryCount + i) * 1000)]) [0..<k])"

definition attempt_events :: "http_request \<Rightarrow> nat \<Rightarrow> event list" where
  "attempt_events req k = backoffs req 0 k @ [Fetch req]"

text \<open>
  Rule 1 of the specification, for one item of \<^verbatim>\<open>content\<close>: an item whose \<^verbatim>\<open>type\<close> is
  \<^verbatim>\<open>"text"\<close> contributes its \<^verbatim>\<open>text\<close>, an item of another type contributes nothing.
  \<open>None\<close> where the rule has no answer: the item is \<^verbatim>\<open>null\<close>, or its type is \<^verbatim>\<open>"text"\<close>
  and its text is present but not a string.
\<close>

definition spec_item_text :: "json \<Rightarrow> string option" where
  "spec_item_text item =
     (case property (Some item) ''type'' of
        Inl e \<Rightarrow> None
      | Inr ty \<Rightarrow>
          if ty = Some (JStr ''text'')
          then (case property (Some item) ''text'' of
                  Inr (Some (JStr t)) \<Rightarrow> Some t
                | Inr None \<Rightarrow> Some []
                | _ \<Rightarrow> None)
          else Some [])"

text \<open>A state that differs from an earlier one by events of the streamer only.\<close>

definition delivery_only :: "state \<Rightarrow> state \<Rightarrow> bool" where
  "delivery_only s s' = (\<exists>evs. s' = emit evs s \<and> fetches evs = [])"

section \<open>Concrete inputs\<close>

text \<open>
  The registry of the default configuration, and the client that \<^verbatim>\<open>index.ts\<close> builds from
  it.
\<close>

definition srv :: "(string \<times> string) list" where
  "srv = [(''aws-knowledge-mcp-server'', ''https://knowledge-mcp.global.api.aws'')]"

definition start :: state where
  "start = fresh srv \<lparr>opt_timeout = Some 30000, opt_maxRetries = Some 3\<rparr>"

definition AbortError :: js_error where
  "AbortError = \<lparr>err_name = ''AbortError'', err_code = None, err_response = None,
                 err_message = ''The user aborted a request.''\<rparr>"

text \<open>
  The error of \<^verbatim>\<open>JSON.parse\<close> as V8 words it (Node 20 and later) for the empty text and
  for a text of at most 20 characters that fails at its first character, such as
  \<^verbatim>\<open><html>\<close>. Node 18 words the second \<^verbatim>\<open>Unexpected token < in JSON at position 0\<close>.
\<close>

definition SyntaxError :: "string \<Rightarrow> js_error" where
  "SyntaxError t =
     \<lparr>err_name = ''SyntaxError'', err_code = None, err_response = None,
      err_message =
        (if t = [] then ''Unexpected end of JSON input''
         else ''Unexpected token '' @ quote1 [hd t] @ '', '' @ [CHR 0x22] @ t @ [CHR 0x22]
              @ '' is not valid JSON'')\<rparr>"

text \<open>
  A parser that knows some values: it reads the serialisation of each of them and
  rejects every other text. The other texts given to it below are of the kind that
  \<open>SyntaxError\<close> words. \<^verbatim>\<open>response.json()\<close> is taken to be \<^verbatim>\<open>JSON.parse\<close> of the body
  text, as in node-fetch 3.
\<close>

definition parse :: "json list \<Rightarrow> string \<Rightarrow> js_error + json" where
  "parse known t =
     (case List.find (\<lambda>v. JSON_stringify v = t) known of
        Some v \<Rightarrow> Inr v
      | None \<Rightarrow> Inl (SyntaxError t))"

text \<open>
  A platform whose network never answers, and one that answers every request with the
  given response.
\<close>

definition offline :: platform where
  "offline = \<lparr>fetch = (\<lambda>n req. Rejected AbortError), JSON_parse = parse [],
               json_of_text = parse [], positive_number = (\<lambda>t. False)\<rparr>"

definition answering :: "json list \<Rightarrow> response \<Rightarrow> platform" where
  "answering known r = \<lparr>fetch = (\<lambda>n req. Resolved r), JSON_parse = parse known,
                         json_of_text = parse known, positive_number = (\<lambda>t. False)\<rparr>"

text \<open>A text of 120 characters.\<close>

definition text120 :: string where
  "text120 = replicate 50 (CHR ''a'') @ replicate 50 (CHR ''b'') @ replicate 20 (CHR ''c'')"

text \<open>
  A network that aborts the first \<open>n\<close> calls of \<^verbatim>\<open>fetch\<close> and answers every later one
  with the given response.
\<close>

definition flaky :: "nat \<Rightarrow> json list \<Rightarrow> response \<Rightarrow> platform" where
  "flaky n known r =
     \<lparr>fetch = (\<lambda>i req. if i < n then Rejected AbortError else Resolved r),
      JSON_parse = parse known, json_of_text = parse known, positive_number = (\<lambda>t. False)\<rparr>"

definition tools_reply :: json where
  "tools_reply = JObj [(''result'', JObj [(''tools'', JArr [])])]"

definition ok_response :: response where
  "ok_response = \<lparr>status = 200, statusText = ''OK'', body = Complete (JSON_stringify tools_reply)\<rparr>"

definition unavailable :: response where
  "unavailable = \<lparr>status = 503, statusText = ''Service Unavailable'', body = Complete ''overloaded''\<rparr>"

definition aws :: member where
  "aws = Own ''https://knowledge-mcp.global.api.aws''"

text \<open>A network layer that refuses every request: the URL is not one it can parse.\<close>

definition invalid_url :: platform where
  "invalid_url = \<lparr>fetch = (\<lambda>n req. Rejected (TypeError ''Invalid URL'')), JSON_parse = parse [],
                   json_of_text = parse [], positive_number = (\<lambda>t. False)\<rparr>"

text \<open>A registry with an entry whose URL is the empty string.\<close>

definition blank :: state where
  "blank = fresh [(''local'', [])] \<lparr>opt_timeout = None, opt_maxRetries = None\<rparr>"

text \<open>
  Result payloads: the three examples of the specification, a payload whose \<^verbatim>\<open>text\<close> is the
  empty string, and a payload with two text items of 60 characters each.
\<close>

definition text_item :: "string \<Rightarrow> json" where
  "text_item t = JObj [(''type'', JStr ''text''), (''text'', JStr t)]"

definition image_item :: json where
  "image_item = JObj [(''type'', JStr ''image''), (''data'', JStr ''x'')]"

definition mixed_content :: json where
  "mixed_content = JObj [(''content'', JArr [text_item ''A'', image_item, text_item ''B''])]"

definition plain_text :: json where
  "plain_text = JObj [(''text'', JStr ''hello'')]"

definition other_shape :: json where
  "other_shape = JObj [(''foo'', JNum 1)]"

definition empty_text :: json where
  "empty_text = JObj [(''text'', JStr [])]"

definition two_items :: json where
  "two_items =
     JObj [(''content'', JArr [text_item (replicate 60 (CHR ''a'')),
                               text_item (replicate 60 (CHR ''b''))])]"

text \<open>A successful answer to \<^verbatim>\<open>tools/call\<close> that carries the mixed content.\<close>

definition call_reply :: json where
  "call_reply = JObj [(''result'', mixed_content)]"

definition call_response :: response where
  "call_response = \<lparr>status = 200, statusText = ''OK'', body = Complete (JSON_stringify call_reply)\<rparr>"

text \<open>
  Answers that are failures of no transient kind: a 404, a body that is not JSON, and the
  JSON-RPC error envelope of the specification.
\<close>

definition not_found :: response where
  "not_found = \<lparr>status = 404, statusText = ''Not Found'', body = Complete ''no such route''\<rparr>"

definition garbage :: response where
  "garbage = \<lparr>status = 200, statusText = ''OK'', body = Complete ''<html>''\<rparr>"

definition rpc_failure :: json where
  "rpc_failure =
     JObj [(''error'', JObj [(''code'', JNum (- 32601)), (''message'', JStr ''Method not found'')])]"

definition error_response :: response where
  "error_response = \<lparr>status = 200, statusText = ''OK'', body = Complete (JSON_stringify rpc_failure)\<rparr>"

text \<open>
  A server that answers \<^verbatim>\<open>tools/list\<close> with its list of tools and \<^verbatim>\<open>tools/call\<close> with
  a 404.
\<close>

definition only_listing :: platform where
  "only_listing =
     \<lparr>fetch = (\<lambda>n req. if property (Some (req_payload req)) ''method'' = Inr (Some (JStr ''tools/call''))
                         then Resolved not_found else Resolved ok_response),
      JSON_parse = parse [tools_reply], json_of_text = parse [tools_reply],
      positive_number = (\<lambda>t. False)\<rparr>"

section \<open>Basic facts\<close>

declare chunks_from.simps [simp del]
declare makeRequest.simps [simp del]

lemma emit_simps [simp]:
  "trace (emit evs s) = trace s @ evs"
  "this (emit evs s) = this s"
  "emit [] s = s"
  "emit bs (emit as s) = emit (as @ bs) s"
  by (simp_all add: emit_def)

lemma next_id_simps [simp]:
  "trace (next_id s) = trace s"
  "requestId (this (next_id s)) = requestId (this s) + 1"
  "servers (this (next_id s)) = servers (this s)"
  "maxRetries (this (next_id s)) = maxRetries (this s)"
  "timeout (this (next_id s)) = timeout (this s)"
  by (simp_all add: next_id_def)

lemma attempts_emit [simp]:
  "attempts (emit evs s) = attempts s + length (filter is_Fetch evs)"
  by (simp add: attempts_def)

lemma attempts_next_id [simp]: "attempts (next_id s) = attempts s"
  by (simp add: attempts_def)

lemma onData_calls_simps [simp]:
  "onData_calls [] = []"
  "onData_calls (OnData c # evs) = c # onData_calls evs"
  "onData_calls (Fetch r # evs) = onData_calls evs"
  "onData_calls (Delay ms # evs) = onData_calls evs"
  "onData_calls (as @ bs) = onData_calls as @ onData_calls bs"
  by (simp_all add: onData_calls_def)

lemma fetches_simps [simp]:
  "fetches [] = []"
  "fetches (Fetch r # evs) = r # fetches evs"
  "fetches (OnData c # evs) = fetches evs"
  "fetches (Delay ms # evs) = fetches evs"
  "fetches (as @ bs) = fetches as @ fetches bs"
  by (simp_all add: fetches_def)

lemma total_delay_simps [simp]:
  "total_delay [] = 0"
  "total_delay (Delay ms # evs) = ms + total_delay evs"
  "total_delay (Fetch r # evs) = total_delay evs"
  "total_delay (OnData c # evs) = total_delay evs"
  "total_delay (as @ bs) = total_delay as + total_delay bs"
  by (simp_all add: total_delay_def)

lemma request_ids_append [simp]: "request_ids (as @ bs) = request_ids as @ request_ids bs"
  by (simp add: request_ids_def)

lemma request_ids_Nil [simp]: "request_ids [] = []"
  by (simp add: request_ids_def)

subsection \<open>The chunks of a text\<close>

lemma chunks_from_unfold:
  "chunks_from str i =
     (if i < length str then take 50 (drop i str) # chunks_from str (i + 50) else [])"
  by (subst chunks_from.simps) (simp add: chunkSize_def slice_def)

lemmas chunks_from_induct = chunks_from.induct [unfolded chunkSize_def]

lemma step50:
  assumes "i < (n::nat)"
  shows "Suc ((n - (i + 50) + 49) div 50) = (n - i + 49) div 50"
proof (cases "n \<le> i + 50")
  case True
  then have "n - (i + 50) = 0" by simp
  moreover have "50 \<le> n - i + 49" "n - i + 49 < 100" using assms True by simp_all
  then have "(n - i + 49) div 50 = 1" by simp
  ultimately show ?thesis by simp
next
  case False
  then have "n - i + 49 = (n - (i + 50) + 49) + 50" by simp
  then show ?thesis by (simp only: div_add_self2)
qed

lemma concat_chunks_from: "concat (chunks_from str i) = drop i str"
proof (induction str i rule: chunks_from_induct)
  case (1 str i)
  show ?case
  proof (cases "i < length str")
    case True
    have "concat (chunks_from str i) = take 50 (drop i str) @ drop (i + 50) str"
      using True 1 by (subst chunks_from_unfold) simp
    also have "\<dots> = take 50 (drop i str) @ drop 50 (drop i str)"
      by (simp add: add.commute)
    also have "\<dots> = drop i str"
      by (rule append_take_drop_id)
    finally show ?thesis .
  next
    case False
    then show ?thesis by (subst chunks_from_unfold) simp
  qed
qed

lemma length_chunks_from:
  "length (chunks_from str i) = (length str - i + 49) div 50"
proof (induction str i rule: chunks_from_induct)
  case (1 str i)
  show ?case
  proof (cases "i < length str")
    case True
    then have "length (chunks_from str i) = Suc ((length str - (i + 50) + 49) div 50)"
      using 1 by (subst chunks_from_unfold) simp
    then show ?thesis using True by (simp only: step50)
  next
    case False
    then show ?thesis by (subst chunks_from_unfold) simp
  qed
qed

lemma nth_chunks_from:
  "k < length (chunks_from str i) \<Longrightarrow>
   chunks_from str i ! k = take 50 (drop (i + 50 * k) str)"
proof (induction str i arbitrary: k rule: chunks_from_induct)
  case (1 str i)
  show ?case
  proof (cases "i < length str")
    case True
    have unfold: "chunks_from str i = take 50 (drop i str) # chunks_from str (i + 50)"
      using True by (subst chunks_from_unfold) simp
    show ?thesis
    proof (cases k)
      case 0
      then show ?thesis by (simp add: unfold)
    next
      case (Suc j)
      then have "j < length (chunks_from str (i + 50))"
        using "1.prems" by (simp add: unfold)
      then have "chunks_from str (i + 50) ! j = take 50 (drop (i + 50 + 50 * j) str)"
        using "1.IH" True by blast
      moreover have "i + 50 + 50 * j = i + 50 * Suc j" by simp
      ultimately show ?thesis using Suc by (simp add: unfold)
    qed
  next
    case False
    then have "chunks_from str i = []" by (subst chunks_from_unfold) simp
    then show ?thesis using "1.prems" by simp
  qed
qed

lemma onData_calls_deliver [simp]: "onData_calls (deliver cs) = cs"
  by (induction cs) (simp_all add: deliver_def)

lemma fetches_deliver [simp]: "fetches (deliver cs) = []"
  by (induction cs) (simp_all add: deliver_def)

lemma deliver_append [simp]: "deliver (as @ bs) = deliver as @ deliver bs"
  by (simp add: deliver_def)

lemma streamed_deliver [simp]: "streamed (deliver (map JStr cs)) = concat cs"
  by (induction cs) (simp_all add: streamed_def)

lemma streamed_append [simp]: "streamed (as @ bs) = streamed as @ streamed bs"
  by (simp add: streamed_def)

lemma streamText_JStr:
  "streamText p (JStr str) s = (Inr (), emit (deliver (map JStr (chunks_from str 0))) s)"
  by (simp add: streamText_def)

subsection \<open>One request, with its retries\<close>

lemma makeRequest_Resolved:
  "fetch p (attempts s) \<lparr>req_url = url, req_payload = payload\<rparr> = Resolved r \<Longrightarrow>
   makeRequest p url payload retryCount s
     = (Inr r, emit [Fetch \<lparr>req_url = url, req_payload = payload\<rparr>] s)"
  by (subst makeRequest.simps) simp

lemma makeRequest_retry:
  "fetch p (attempts s) \<lparr>req_url = url, req_payload = payload\<rparr> = Rejected e \<Longrightarrow>
   int retryCount < maxRetries (this s) \<Longrightarrow> isRetryableError e \<Longrightarrow>
   makeRequest p url payload retryCount s
     = makeRequest p url payload (Suc retryCount)
         (emit [Fetch \<lparr>req_url = url, req_payload = payload\<rparr>, Delay (2 ^ retryCount * 1000)] s)"
  by (subst makeRequest.simps) simp

lemma makeRequest_give_up:
  "fetch p (attempts s) \<lparr>req_url = url, req_payload = payload\<rparr> = Rejected e \<Longrightarrow>
   \<not> (int retryCount < maxRetries (this s) \<and> isRetryableError e) \<Longrightarrow>
   makeRequest p url payload retryCount s
     = (Inl e, emit [Fetch \<lparr>req_url = url, req_payload = payload\<rparr>] s)"
  by (subst makeRequest.simps) auto

lemma backoffs_Suc:
  "backoffs req retryCount (Suc k)
     = [Fetch req, Delay (2 ^ retryCount * 1000)] @ backoffs req (Suc retryCount) k"
proof -
  have "[0..<Suc k] = 0 # map Suc [0..<k]"
    by (simp add: upt_conv_Cons map_Suc_upt del: upt_Suc)
  then show ?thesis
    by (simp add: backoffs_def comp_def del: upt_Suc)
qed

lemma backoffs_0 [simp]: "backoffs req retryCount 0 = []"
  by (simp add: backoffs_def)

lemma makeRequest_backoffs:
  assumes "\<forall>i<k. \<exists>e. fetch p (attempts s + i) \<lparr>req_url = url, req_payload = payload\<rparr> = Rejected e
              \<and> isRetryableError e"
    and "int (retryCount + k) \<le> maxRetries (this s)"
  shows "makeRequest p url payload retryCount s
     = makeRequest p url payload (retryCount + k)
         (emit (backoffs \<lparr>req_url = url, req_payload = payload\<rparr> retryCount k) s)"
  using assms
proof (induction k arbitrary: retryCount s)
  case 0
  then show ?case by simp
next
  case (Suc k)
  let ?req = "\<lparr>req_url = url, req_payload = payload\<rparr>"
  let ?s = "emit [Fetch ?req, Delay (2 ^ retryCount * 1000)] s"
  from Suc.prems(1) obtain e where e: "fetch p (attempts s) ?req = Rejected e" "isRetryableError e"
    by force
  have first: "makeRequest p url payload retryCount s = makeRequest p url payload (Suc retryCount) ?s"
    using e Suc.prems(2) by (intro makeRequest_retry) simp_all
  have rest: "\<forall>i<k. \<exists>e. fetch p (attempts ?s + i) ?req = Rejected e \<and> isRetryableError e"
    using Suc.prems(1) by (auto dest: spec [where x = "Suc i" for i])
  have "makeRequest p url payload (Suc retryCount) ?s
      = makeRequest p url payload (Suc retryCount + k) (emit (backoffs ?req (Suc retryCount) k) ?s)"
    using rest Suc.prems(2) by (intro Suc.IH) simp_all
  then show ?case using first by (simp add: backoffs_Suc)
qed

lemma total_delay_backoffs:
  "total_delay (backoffs req retryCount k) = (\<Sum>i<k. 2 ^ (retryCount + i) * 1000)"
  by (induction k arbitrary: retryCount)
     (simp_all add: backoffs_Suc sum.lessThan_Suc_shift del: sum.lessThan_Suc)

lemma fetches_backoffs [simp]: "fetches (backoffs req retryCount k) = replicate k req"
  by (induction k arbitrary: retryCount) (simp_all add: backoffs_Suc)

lemma onData_calls_backoffs [simp]: "onData_calls (backoffs req retryCount k) = []"
  by (induction k arbitrary: retryCount) (simp_all add: backoffs_Suc)

lemma attempts_backoffs [simp]: "length (filter is_Fetch (backoffs req retryCount k)) = k"
  by (induction k arbitrary: retryCount) (simp_all add: backoffs_Suc)

lemma sum_powers_of_two: "(\<Sum>i<k. 2 ^ i * 1000) = (2 ^ k - 1) * (1000::nat)"
  by (induction k) (simp_all add: algebra_simps)

section \<open>The chunk streamer\<close>

text \<open>
  Claim C4. For every source string of length \<open>n\<close>, \<^verbatim>\<open>streamText\<close> delivers exactly
  \<open>\<lceil>n / 50\<rceil>\<close> chunks to the callback and returns. The chunks are the contiguous slices
  \<open>[50 k, 50 k + 50)\<close> of the string in left-to-right order; concatenated they give the
  string back, so every character is in exactly one chunk; no chunk is empty, every chunk
  but the last has length 50 and the last has at most 50. The empty string leaves the
  state as it is: no call of the callback.
\<close>

theorem streamText_chunking:
  "streamText p (JStr str) s = (Inr (), emit (deliver (map JStr (chunks_from str 0))) s)
   \<and> onData_calls (deliver (map JStr (chunks_from str 0))) = map JStr (chunks_from str 0)
   \<and> length (chunks_from str 0) = (length str + 49) div 50
   \<and> concat (chunks_from str 0) = str
   \<and> (\<forall>k < length (chunks_from str 0).
         chunks_from str 0 ! k = slice str (50 * k) (50 * k + 50)
         \<and> 0 < length (chunks_from str 0 ! k)
         \<and> length (chunks_from str 0 ! k) \<le> 50
         \<and> (Suc k < length (chunks_from str 0) \<longrightarrow> length (chunks_from str 0 ! k) = 50))
   \<and> streamText p (JStr []) s = (Inr (), s)"
proof -
  let ?cs = "chunks_from str 0"
  have len: "length ?cs = (length str + 49) div 50"
    using length_chunks_from [of str 0] by simp
  have nth: "?cs ! k = slice str (50 * k) (50 * k + 50)" if "k < length ?cs" for k
    using nth_chunks_from [OF that] by (simp add: slice_def)
  have pos: "0 < length (?cs ! k)" if "k < length ?cs" for k
  proof -
    have "k < (length str + 49) div 50" using that len by simp
    then have "Suc k * 50 \<le> length str + 49"
      by (simp only: Suc_le_eq [symmetric] less_eq_div_iff_mult_less_eq [OF zero_less_numeral])
    then have "50 * k < length str" by simp
    then show ?thesis using nth [OF that] by (simp add: slice_def)
  qed
  have full: "length (?cs ! k) = 50" if "Suc k < length ?cs" for k
  proof -
    have "Suc k < (length str + 49) div 50" using that len by simp
    then have "Suc (Suc k) * 50 \<le> length str + 49"
      by (simp only: Suc_le_eq [symmetric] less_eq_div_iff_mult_less_eq [OF zero_less_numeral])
    then have "50 * k + 50 \<le> length str" by simp
    moreover have "k < length ?cs" using that by simp
    ultimately show ?thesis using nth [of k] by (simp add: slice_def)
  qed
  have empty: "streamText p (JStr []) s = (Inr (), s)"
    by (simp add: streamText_JStr chunks_from_unfold [of "[]"] deliver_def)
  show ?thesis
    using len nth pos full empty
    by (simp add: streamText_JStr concat_chunks_from slice_def)
qed

text \<open>
  The 120 characters of \<open>text120\<close> arrive as three chunks of 50, 50 and 20 characters,
  which concatenate to the text.
\<close>

theorem streamText_chunking_witness:
  "(2::nat) < length (chunks_from text120 0)
   \<and> chunks_from text120 0 ! 2 = slice text120 100 150
   \<and> Suc 1 < length (chunks_from text120 0)
   \<and> length (chunks_from text120 0 ! 1) = 50
   \<and> map length (chunks_from text120 0) = [50, 50, 20]
   \<and> concat (chunks_from text120 0) = text120
   \<and> onData_calls (trace (snd (streamText offline (JStr text120) start)))
       = [JStr (replicate 50 (CHR ''a'')), JStr (replicate 50 (CHR ''b'')),
          JStr (replicate 20 (CHR ''c''))]"
proof -
  have n: "length text120 = 120" by (simp add: text120_def)
  have cs: "chunks_from text120 0
      = [replicate 50 (CHR ''a''), replicate 50 (CHR ''b''), replicate 20 (CHR ''c'')]"
    by (simp add: chunks_from_unfold text120_def)
  have tr: "trace start = []" by (simp add: start_def fresh_def)
  note fact = streamText_chunking [of offline text120 start]
  have three: "length (chunks_from text120 0) = 3" using fact n by simp
  have a: "(2::nat) < length (chunks_from text120 0)" using three by simp
  have a': "Suc 1 < length (chunks_from text120 0)" using three by simp
  have each: "\<forall>k < length (chunks_from text120 0).
         chunks_from text120 0 ! k = slice text120 (50 * k) (50 * k + 50)
         \<and> 0 < length (chunks_from text120 0 ! k)
         \<and> length (chunks_from text120 0 ! k) \<le> 50
         \<and> (Suc k < length (chunks_from text120 0) \<longrightarrow> length (chunks_from text120 0 ! k) = 50)"
    using fact by blast
  have b: "chunks_from text120 0 ! 2 = slice text120 100 150"
    using each [rule_format, OF a] by simp
  have c: "length (chunks_from text120 0 ! 1) = 50"
    using each [rule_format, of 1] a' by (meson Suc_lessD)
  have d: "concat (chunks_from text120 0) = text120" using fact by simp
  have e: "onData_calls (trace (snd (streamText offline (JStr text120) start)))
      = map JStr (chunks_from text120 0)"
    using fact tr by simp
  have f: "map length (chunks_from text120 0) = [50, 50, 20]" by (simp add: cs)
  have g: "onData_calls (trace (snd (streamText offline (JStr text120) start)))
      = [JStr (replicate 50 (CHR ''a'')), JStr (replicate 50 (CHR ''b'')),
         JStr (replicate 20 (CHR ''c''))]"
    using e by (simp only: cs list.map)
  show ?thesis using a a' b c d f g by blast
qed

section \<open>Retry and backoff\<close>

lemma start_simps [simp]:
  "trace start = []" "attempts start = 0" "maxRetries (this start) = 3"
  "requestId (this start) = 1" "servers (this start) = srv"
  by (simp_all add: start_def fresh_def constructor_def or_default_def attempts_def)

lemma isRetryableError_AbortError [simp]: "isRetryableError AbortError"
  by (simp add: isRetryableError_def AbortError_def)

text \<open>
  Claim C2, amended. A failed attempt is here a rejection of \<^verbatim>\<open>fetch\<close>, that is a thrown
  error, which \<^verbatim>\<open>isRetryableError\<close> accepts: a network abort, a connection reset, a
  connection timeout, or a thrown error that carries a \<^verbatim>\<open>response\<close> of status 500 or
  more. Let \<^verbatim>\<open>fetch\<close> reject the first \<open>k\<close> attempts of a request in this way. If \<open>k \<le> maxRetries\<close> and \<^verbatim>\<open>fetch\<close> resolves the next attempt with a response,
  \<^verbatim>\<open>makeRequest\<close> returns that response; before retry \<open>i\<close> (counted from 0) it sleeps
  \<open>2^i\<close> seconds, in total the sum of \<open>2^0\<close> to \<open>2^(k-1)\<close> seconds. If more than
  \<open>maxRetries\<close> attempts are rejected, it makes exactly \<open>maxRetries + 1\<close> attempts (one
  initial attempt and \<open>maxRetries\<close> retries) and throws the error of the last of them.
  An attempt that is answered by a response of status 500 or more is not a rejection of
  \<^verbatim>\<open>fetch\<close> and is no failed attempt in this statement: the section that follows is
  about it.
\<close>

theorem makeRequest_backoff_budget:
  assumes "\<forall>i<k. \<exists>e. fetch p (attempts s + i) \<lparr>req_url = url, req_payload = payload\<rparr> = Rejected e
              \<and> isRetryableError e"
  shows "(int k \<le> maxRetries (this s)
          \<and> fetch p (attempts s + k) \<lparr>req_url = url, req_payload = payload\<rparr> = Resolved r \<longrightarrow>
            makeRequest p url payload 0 s
              = (Inr r, emit (attempt_events \<lparr>req_url = url, req_payload = payload\<rparr> k) s)
            \<and> attempt_events \<lparr>req_url = url, req_payload = payload\<rparr> k
              = concat (map (\<lambda>i. [Fetch \<lparr>req_url = url, req_payload = payload\<rparr>,
                                   Delay (2 ^ i * 1000)]) [0..<k])
                @ [Fetch \<lparr>req_url = url, req_payload = payload\<rparr>]
            \<and> total_delay (attempt_events \<lparr>req_url = url, req_payload = payload\<rparr> k)
              = (\<Sum>i<k. 2 ^ i * 1000))
       \<and> (maxRetries (this s) = int m \<and> m < k
          \<and> fetch p (attempts s + m) \<lparr>req_url = url, req_payload = payload\<rparr> = Rejected e \<longrightarrow>
            makeRequest p url payload 0 s
              = (Inl e, emit (attempt_events \<lparr>req_url = url, req_payload = payload\<rparr> m) s)
            \<and> length (fetches (attempt_events \<lparr>req_url = url, req_payload = payload\<rparr> m)) = m + 1
            \<and> total_delay (attempt_events \<lparr>req_url = url, req_payload = payload\<rparr> m)
              = (\<Sum>i<m. 2 ^ i * 1000))"
proof -
  let ?req = "\<lparr>req_url = url, req_payload = payload\<rparr>"
  have shape: "attempt_events ?req n
      = concat (map (\<lambda>i. [Fetch ?req, Delay (2 ^ i * 1000)]) [0..<n]) @ [Fetch ?req]" for n
    by (simp add: attempt_events_def backoffs_def)
  have delay: "total_delay (attempt_events ?req n) = (\<Sum>i<n. 2 ^ i * 1000)" for n
    using total_delay_backoffs [of ?req 0 n] by (simp add: attempt_events_def)
  have count: "length (fetches (attempt_events ?req n)) = n + 1" for n
    by (simp add: attempt_events_def)
  have success: "makeRequest p url payload 0 s = (Inr r, emit (attempt_events ?req k) s)"
    if "int k \<le> maxRetries (this s)" "fetch p (attempts s + k) ?req = Resolved r"
  proof -
    have "makeRequest p url payload 0 s
        = makeRequest p url payload (0 + k) (emit (backoffs ?req 0 k) s)"
      using assms that(1) by (intro makeRequest_backoffs) simp_all
    also have "\<dots> = (Inr r, emit [Fetch ?req] (emit (backoffs ?req 0 k) s))"
      using that(2) by (intro makeRequest_Resolved) simp
    finally show ?thesis by (simp add: attempt_events_def)
  qed
  have failure: "makeRequest p url payload 0 s = (Inl e, emit (attempt_events ?req m) s)"
    if "maxRetries (this s) = int m" "m < k" "fetch p (attempts s + m) ?req = Rejected e"
  proof -
    have "\<forall>i<m. \<exists>e. fetch p (attempts s + i) ?req = Rejected e \<and> isRetryableError e"
      using assms that(2) by auto
    then have "makeRequest p url payload 0 s
        = makeRequest p url payload (0 + m) (emit (backoffs ?req 0 m) s)"
      using that(1) by (intro makeRequest_backoffs) simp_all
    also have "\<dots> = (Inl e, emit [Fetch ?req] (emit (backoffs ?req 0 m) s))"
      using that(1,3) by (intro makeRequest_give_up) simp_all
    finally show ?thesis by (simp add: attempt_events_def)
  qed
  show ?thesis using shape delay count success failure by blast
qed

text \<open>
  Two aborted attempts and then an answer: the call returns the answer after backoffs of
  1 and 2 seconds. A network that never answers: the call fails with the error of the
  fourth attempt, after backoffs of 1, 2 and 4 seconds.
\<close>

theorem makeRequest_backoff_budget_witness:
  "int 2 \<le> maxRetries (this start)
   \<and> fetch (flaky 2 [] ok_response) (attempts start + 2) \<lparr>req_url = aws, req_payload = tools_request 1\<rparr>
       = Resolved ok_response
   \<and> makeRequest (flaky 2 [] ok_response) aws (tools_request 1) 0 start
       = (Inr ok_response,
          emit [Fetch \<lparr>req_url = aws, req_payload = tools_request 1\<rparr>, Delay 1000,
                Fetch \<lparr>req_url = aws, req_payload = tools_request 1\<rparr>, Delay 2000,
                Fetch \<lparr>req_url = aws, req_payload = tools_request 1\<rparr>] start)
   \<and> total_delay (attempt_events \<lparr>req_url = aws, req_payload = tools_request 1\<rparr> 2) = 3000
   \<and> maxRetries (this start) = int 3
   \<and> fetch offline (attempts start + 3) \<lparr>req_url = aws, req_payload = tools_request 1\<rparr>
       = Rejected AbortError
   \<and> makeRequest offline aws (tools_request 1) 0 start
       = (Inl AbortError,
          emit [Fetch \<lparr>req_url = aws, req_payload = tools_request 1\<rparr>, Delay 1000,
                Fetch \<lparr>req_url = aws, req_payload = tools_request 1\<rparr>, Delay 2000,
                Fetch \<lparr>req_url = aws, req_payload = tools_request 1\<rparr>, Delay 4000,
                Fetch \<lparr>req_url = aws, req_payload = tools_request 1\<rparr>] start)
   \<and> length (fetches (attempt_events \<lparr>req_url = aws, req_payload = tools_request 1\<rparr> 3)) = 3 + 1
   \<and> total_delay (attempt_events \<lparr>req_url = aws, req_payload = tools_request 1\<rparr> 3) = 7000"
proof -
  let ?req = "\<lparr>req_url = aws, req_payload = tools_request 1\<rparr>"
  have two: "\<forall>i<2. \<exists>e. fetch (flaky 2 [] ok_response) (attempts start + i) ?req = Rejected e
      \<and> isRetryableError e"
    by (simp add: flaky_def)
  have answer: "fetch (flaky 2 [] ok_response) (attempts start + 2) ?req = Resolved ok_response"
    by (simp add: flaky_def)
  have four: "\<forall>i<4. \<exists>e. fetch offline (attempts start + i) ?req = Rejected e \<and> isRetryableError e"
    by (simp add: offline_def)
  have last: "fetch offline (attempts start + 3) ?req = Rejected AbortError"
    by (simp add: offline_def)
  have events: "attempt_events ?req 2 = [Fetch ?req, Delay 1000, Fetch ?req, Delay 2000, Fetch ?req]"
    "attempt_events ?req 3
       = [Fetch ?req, Delay 1000, Fetch ?req, Delay 2000, Fetch ?req, Delay 4000, Fetch ?req]"
    by (simp_all add: attempt_events_def backoffs_def upt_rec)
  have sums: "(\<Sum>i<2. 2 ^ i * 1000) = (3000::nat)" "(\<Sum>i<3. 2 ^ i * 1000) = (7000::nat)"
    by (simp_all add: sum_powers_of_two)
  note first = makeRequest_backoff_budget [OF two, of ok_response 3 AbortError]
  note second = makeRequest_backoff_budget [OF four, of ok_response 3 AbortError]
  have bound: "int 2 \<le> maxRetries (this start)" "maxRetries (this start) = int 3" "(3::nat) < 4"
    by simp_all
  have a1: "makeRequest (flaky 2 [] ok_response) aws (tools_request 1) 0 start
        = (Inr ok_response, emit (attempt_events ?req 2) start)"
    using first bound(1) answer by blast
  have a2: "total_delay (attempt_events ?req 2) = (\<Sum>i<2. 2 ^ i * 1000)"
    using first bound(1) answer by blast
  have b1: "makeRequest offline aws (tools_request 1) 0 start
        = (Inl AbortError, emit (attempt_events ?req 3) start)"
    using second bound(2,3) last by blast
  have b2: "length (fetches (attempt_events ?req 3)) = 3 + 1"
    using second bound(2,3) last by blast
  have b3: "total_delay (attempt_events ?req 3) = (\<Sum>i<3. 2 ^ i * 1000)"
    using second bound(2,3) last by blast
  have a': "makeRequest (flaky 2 [] ok_response) aws (tools_request 1) 0 start
        = (Inr ok_response, emit [Fetch ?req, Delay 1000, Fetch ?req, Delay 2000, Fetch ?req] start)"
    using a1 by (simp only: events)
  have b': "makeRequest offline aws (tools_request 1) 0 start
        = (Inl AbortError, emit [Fetch ?req, Delay 1000, Fetch ?req, Delay 2000, Fetch ?req,
             Delay 4000, Fetch ?req] start)"
    using b1 by (simp only: events)
  have a'': "total_delay (attempt_events ?req 2) = 3000" using a2 by (simp only: sums)
  have b'': "total_delay (attempt_events ?req 3) = 7000" using b3 by (simp only: sums)
  show ?thesis using a' a'' b' b2 b'' bound(1,2) answer last by blast
qed

text \<open>
  Claim C2 as stated fails for \<open>k = maxRetries\<close>: with the default of 3 retries and a
  network that aborts exactly 3 attempts, the claim lets the call fail, and the client
  returns the answer of the fourth attempt.
\<close>

theorem three_failures_then_success_counterexample:
  "maxRetries (this start) = 3
   \<and> isRetryableError AbortError
   \<and> fetch (flaky 3 [] ok_response) 0 \<lparr>req_url = aws, req_payload = tools_request 1\<rparr> = Rejected AbortError
   \<and> fetch (flaky 3 [] ok_response) 1 \<lparr>req_url = aws, req_payload = tools_request 1\<rparr> = Rejected AbortError
   \<and> fetch (flaky 3 [] ok_response) 2 \<lparr>req_url = aws, req_payload = tools_request 1\<rparr> = Rejected AbortError
   \<and> fetch (flaky 3 [] ok_response) 3 \<lparr>req_url = aws, req_payload = tools_request 1\<rparr> = Resolved ok_response
   \<and> makeRequest (flaky 3 [] ok_response) aws (tools_request 1) 0 start
       = (Inr ok_response,
          emit [Fetch \<lparr>req_url = aws, req_payload = tools_request 1\<rparr>, Delay 1000,
                Fetch \<lparr>req_url = aws, req_payload = tools_request 1\<rparr>, Delay 2000,
                Fetch \<lparr>req_url = aws, req_payload = tools_request 1\<rparr>, Delay 4000,
                Fetch \<lparr>req_url = aws, req_payload = tools_request 1\<rparr>] start)"
proof -
  let ?req = "\<lparr>req_url = aws, req_payload = tools_request 1\<rparr>"
  let ?p = "flaky 3 [] ok_response"
  have "makeRequest ?p aws (tools_request 1) 0 start
      = makeRequest ?p aws (tools_request 1) (0 + 3) (emit (backoffs ?req 0 3) start)"
    by (intro makeRequest_backoffs) (simp_all add: flaky_def)
  also have "\<dots> = (Inr ok_response, emit [Fetch ?req] (emit (backoffs ?req 0 3) start))"
    by (intro makeRequest_Resolved) (simp add: flaky_def)
  finally have "makeRequest ?p aws (tools_request 1) 0 start
      = (Inr ok_response, emit (backoffs ?req 0 3 @ [Fetch ?req]) start)"
    by simp
  then show ?thesis by (simp add: flaky_def backoffs_def upt_rec)
qed

section \<open>A server error in an HTTP response\<close>

lemma lookup_srv [simp]: "lookup srv ''aws-knowledge-mcp-server'' = aws"
  by (simp add: lookup_def srv_def aws_def)

lemma validate_srv [simp]: "validateServerName (this start) ''aws-knowledge-mcp-server'' = Inr ()"
  by (simp add: validateServerName_def aws_def)

text \<open>
  Claim C1, at the input where the client departs from it. The server answers with
  status 503. That is a response, not a rejection of \<^verbatim>\<open>fetch\<close>: \<^verbatim>\<open>makeRequest\<close> returns it
  after a single attempt, and \<^verbatim>\<open>listTools\<close> throws the HTTP error at once, with no retry
  and no delay, although three retries are left and \<^verbatim>\<open>isRetryableError\<close> accepts an error
  that carries a response of status 503.
\<close>

theorem server_error_response_not_retried:
  "status unavailable = 503
   \<and> maxRetries (this start) = 3
   \<and> isRetryableError \<lparr>err_name = ''Error'', err_code = None, err_response = Some 503,
                         err_message = ''Service Unavailable''\<rparr>
   \<and> makeRequest (answering [] unavailable) aws (tools_request 1) 0 start
       = (Inr unavailable, emit [Fetch \<lparr>req_url = aws, req_payload = tools_request 1\<rparr>] start)
   \<and> listTools (answering [] unavailable) ''aws-knowledge-mcp-server'' start
       = (Inl (Error (''Failed to fetch tools from aws-knowledge-mcp-server ''
                 @ ''(https://knowledge-mcp.global.api.aws): ''
                 @ ''HTTP 503: Service Unavailable. Body: overloaded'')),
          emit [Fetch \<lparr>req_url = aws, req_payload = tools_request 1\<rparr>] (next_id start))"
proof -
  let ?p = "answering [] unavailable"
  let ?req = "\<lparr>req_url = aws, req_payload = tools_request 1\<rparr>"
  have request: "makeRequest ?p aws (tools_request 1) 0 s = (Inr unavailable, emit [Fetch ?req] s)" for s
    by (intro makeRequest_Resolved) (simp add: answering_def)
  have error: "http_error unavailable
      = Error ''HTTP 503: Service Unavailable. Body: overloaded''"
    by (simp add: http_error_def response_text_def unavailable_def Number_toString_def digit_def)
  have not_ok: "\<not> ok unavailable"
    by (simp add: ok_def unavailable_def)
  have "listTools_try ?p ''aws-knowledge-mcp-server'' aws start
      = (Inl (http_error unavailable), emit [Fetch ?req] (next_id start))"
    by (simp add: listTools_try_def request not_ok)
  then have "listTools ?p ''aws-knowledge-mcp-server'' start
      = (Inl (Error (''Failed to fetch tools from aws-knowledge-mcp-server ''
                 @ ''(https://knowledge-mcp.global.api.aws): ''
                 @ ''HTTP 503: Service Unavailable. Body: overloaded'')),
          emit [Fetch ?req] (next_id start))"
    by (simp add: listTools_def error message_or_error_def Error_def aws_def)
  then show ?thesis
    using request [of start] by (simp add: unavailable_def isRetryableError_def)
qed

section \<open>Defaults of the constructor\<close>

text \<open>
  Claim C10. An option of 0 is falsy, so the constructor replaces it by the default:
  \<^verbatim>\<open>maxRetries: 0\<close> gives 3 and \<^verbatim>\<open>timeout: 0\<close> gives 30000. A client configured with
  \<^verbatim>\<open>maxRetries: 0\<close> therefore still retries a rejected attempt: retries cannot be
  switched off this way.
\<close>

theorem zero_options_fall_back:
  "maxRetries (constructor sv \<lparr>opt_timeout = t, opt_maxRetries = Some 0\<rparr>) = 3
   \<and> timeout (constructor sv \<lparr>opt_timeout = Some 0, opt_maxRetries = m\<rparr>) = 30000
   \<and> (this s = constructor sv \<lparr>opt_timeout = t, opt_maxRetries = Some 0\<rparr>
        \<and> fetch p (attempts s) \<lparr>req_url = url, req_payload = payload\<rparr> = Rejected e
        \<and> isRetryableError e \<longrightarrow>
          makeRequest p url payload 0 s
            = makeRequest p url payload 1
                (emit [Fetch \<lparr>req_url = url, req_payload = payload\<rparr>, Delay 1000] s))"
proof -
  have three: "maxRetries (constructor sv \<lparr>opt_timeout = t, opt_maxRetries = Some 0\<rparr>) = 3"
    by (simp add: constructor_def or_default_def)
  have "makeRequest p url payload 0 s
      = makeRequest p url payload (Suc 0)
          (emit [Fetch \<lparr>req_url = url, req_payload = payload\<rparr>, Delay (2 ^ 0 * 1000)] s)"
    if "this s = constructor sv \<lparr>opt_timeout = t, opt_maxRetries = Some 0\<rparr>"
      "fetch p (attempts s) \<lparr>req_url = url, req_payload = payload\<rparr> = Rejected e"
      "isRetryableError e"
    using that three by (intro makeRequest_retry) simp_all
  then show ?thesis
    by (simp add: constructor_def or_default_def)
qed

text \<open>
  A client built with \<^verbatim>\<open>{maxRetries: 0, timeout: 0}\<close> meets one aborted attempt: it sleeps
  a second, tries again and returns the answer.
\<close>

theorem zero_options_fall_back_witness:
  "this (fresh srv \<lparr>opt_timeout = Some 0, opt_maxRetries = Some 0\<rparr>)
     = constructor srv \<lparr>opt_timeout = Some 0, opt_maxRetries = Some 0\<rparr>
   \<and> fetch (flaky 1 [] ok_response) (attempts (fresh srv \<lparr>opt_timeout = Some 0, opt_maxRetries = Some 0\<rparr>))
        \<lparr>req_url = aws, req_payload = tools_request 1\<rparr> = Rejected AbortError
   \<and> isRetryableError AbortError
   \<and> maxRetries (constructor srv \<lparr>opt_timeout = Some 0, opt_maxRetries = Some 0\<rparr>) = 3
   \<and> timeout (constructor srv \<lparr>opt_timeout = Some 0, opt_maxRetries = Some 0\<rparr>) = 30000
   \<and> makeRequest (flaky 1 [] ok_response) aws (tools_request 1) 0
         (fresh srv \<lparr>opt_timeout = Some 0, opt_maxRetries = Some 0\<rparr>)
       = (Inr ok_response,
          emit [Fetch \<lparr>req_url = aws, req_payload = tools_request 1\<rparr>, Delay 1000,
                Fetch \<lparr>req_url = aws, req_payload = tools_request 1\<rparr>]
            (fresh srv \<lparr>opt_timeout = Some 0, opt_maxRetries = Some 0\<rparr>))"
proof -
  let ?s = "fresh srv \<lparr>opt_timeout = Some 0, opt_maxRetries = Some 0\<rparr>"
  let ?p = "flaky 1 [] ok_response"
  let ?req = "\<lparr>req_url = aws, req_payload = tools_request 1\<rparr>"
  note fact = zero_options_fall_back [of srv "Some 0" "Some 0" ?s ?p aws "tools_request 1" AbortError]
  have built: "this ?s = constructor srv \<lparr>opt_timeout = Some 0, opt_maxRetries = Some 0\<rparr>"
    by (simp add: fresh_def)
  have rejected: "fetch ?p (attempts ?s) ?req = Rejected AbortError"
    by (simp add: flaky_def fresh_def attempts_def)
  have retryable: "isRetryableError AbortError"
    by simp
  have "makeRequest ?p aws (tools_request 1) 0 ?s
      = makeRequest ?p aws (tools_request 1) 1 (emit [Fetch ?req, Delay 1000] ?s)"
    using fact built rejected retryable by blast
  also have "\<dots> = (Inr ok_response, emit [Fetch ?req] (emit [Fetch ?req, Delay 1000] ?s))"
    by (intro makeRequest_Resolved) (simp add: flaky_def fresh_def attempts_def)
  finally have "makeRequest ?p aws (tools_request 1) 0 ?s
      = (Inr ok_response, emit [Fetch ?req, Delay 1000, Fetch ?req] ?s)"
    by simp
  moreover have "maxRetries (constructor srv \<lparr>opt_timeout = Some 0, opt_maxRetries = Some 0\<rparr>) = 3"
    "timeout (constructor srv \<lparr>opt_timeout = Some 0, opt_maxRetries = Some 0\<rparr>) = 30000"
    using fact by blast+
  ultimately show ?thesis using built rejected retryable by blast
qed

section \<open>The registry\<close>

lemma listTools_invalid:
  "validateServerName (this s) serverName = Inl e \<Longrightarrow> listTools p serverName s = (Inl e, s)"
  by (simp add: listTools_def)

lemma callToolStream_invalid:
  "validateServerName (this s) serverName = Inl e \<Longrightarrow>
   callToolStream p serverName tool args s = (Inl e, s)"
  by (simp add: callToolStream_def)

text \<open>
  The guard \<^verbatim>\<open>!this.servers[serverName]\<close> by the kind of name. A name registered with a
  non-empty URL passes, and the URL that the operation then uses is the registered one.
  A name that is neither registered nor the name of a member inherited from
  \<^verbatim>\<open>Object.prototype\<close>, and a name registered with the empty URL, make \<^verbatim>\<open>listTools\<close> and
  \<^verbatim>\<open>callToolStream\<close> fail with an error that lists the names of \<^verbatim>\<open>getServerNames\<close>, the
  keys of the registry; the state is unchanged, so nothing was sent.
\<close>

lemma validateServerName_by_kind:
  "(map_of (servers (this s)) serverName = Some url \<and> url \<noteq> [] \<longrightarrow>
      validateServerName (this s) serverName = Inr ()
      \<and> lookup (servers (this s)) serverName = Own url)
   \<and> (map_of (servers (this s)) serverName = None \<and> serverName \<notin> set Object_prototype
        \<or> map_of (servers (this s)) serverName = Some [] \<longrightarrow>
      listTools p serverName s
        = (Inl (Error (''Server '' @ quote1 serverName @ '' not found. Available servers: ''
                  @ intercalate '', '' (getServerNames (this s)))), s)
      \<and> callToolStream p serverName tool args s
        = (Inl (Error (''Server '' @ quote1 serverName @ '' not found. Available servers: ''
                  @ intercalate '', '' (getServerNames (this s)))), s))
   \<and> set (getServerNames (this s)) = dom (map_of (servers (this s)))"
proof -
  let ?e = "Error (''Server '' @ quote1 serverName @ '' not found. Available servers: ''
                  @ intercalate '', '' (getServerNames (this s)))"
  have found: "validateServerName (this s) serverName = Inr ()
      \<and> lookup (servers (this s)) serverName = Own url"
    if "map_of (servers (this s)) serverName = Some url" "url \<noteq> []"
    using that by (simp add: validateServerName_def lookup_def)
  have missing: "validateServerName (this s) serverName = Inl ?e"
    if "map_of (servers (this s)) serverName = None \<and> serverName \<notin> set Object_prototype
        \<or> map_of (servers (this s)) serverName = Some []"
    using that by (auto simp: validateServerName_def lookup_def getServerNames_def)
  have names: "set (getServerNames (this s)) = dom (map_of (servers (this s)))"
    by (simp add: getServerNames_def dom_map_of_conv_image_fst)
  show ?thesis
    using found missing [THEN listTools_invalid] missing [THEN callToolStream_invalid] names
    by blast
qed

text \<open>
  The registered name of the default configuration is accepted with its URL; an unknown
  name, and the name registered with an empty URL, are refused with the list of names,
  and the state stays as it was.
\<close>

lemma validateServerName_by_kind_examples:
  "map_of (servers (this start)) ''aws-knowledge-mcp-server''
     = Some ''https://knowledge-mcp.global.api.aws''
   \<and> validateServerName (this start) ''aws-knowledge-mcp-server'' = Inr ()
   \<and> lookup (servers (this start)) ''aws-knowledge-mcp-server''
     = Own ''https://knowledge-mcp.global.api.aws''
   \<and> map_of (servers (this start)) ''nope'' = None
   \<and> ''nope'' \<notin> set Object_prototype
   \<and> listTools offline ''nope'' start
     = (Inl (Error (''Server '' @ quote1 ''nope''
               @ '' not found. Available servers: aws-knowledge-mcp-server'')), start)
   \<and> callToolStream offline ''nope'' ''search'' (JObj []) start
     = (Inl (Error (''Server '' @ quote1 ''nope''
               @ '' not found. Available servers: aws-knowledge-mcp-server'')), start)
   \<and> map_of (servers (this blank)) ''local'' = Some []
   \<and> listTools offline ''local'' blank
     = (Inl (Error (''Server '' @ quote1 ''local'' @ '' not found. Available servers: local'')),
        blank)"
proof -
  have registered: "map_of (servers (this start)) ''aws-knowledge-mcp-server''
      = Some ''https://knowledge-mcp.global.api.aws''"
    by (simp add: srv_def)
  have unknown: "map_of (servers (this start)) ''nope'' = None"
    "''nope'' \<notin> set Object_prototype"
    by (simp_all add: srv_def Object_prototype_def)
  have empty: "map_of (servers (this blank)) ''local'' = Some []"
    by (simp add: blank_def fresh_def constructor_def)
  have names: "getServerNames (this start) = [''aws-knowledge-mcp-server'']"
    "getServerNames (this blank) = [''local'']"
    by (simp_all add: getServerNames_def srv_def blank_def fresh_def constructor_def)
  note a = validateServerName_by_kind
    [of start "''aws-knowledge-mcp-server''" "''https://knowledge-mcp.global.api.aws''"]
  note b = validateServerName_by_kind [of start "''nope''" _ offline "''search''" "JObj []"]
  note c = validateServerName_by_kind [of blank "''local''" _ offline]
  have a': "validateServerName (this start) ''aws-knowledge-mcp-server'' = Inr ()"
    "lookup (servers (this start)) ''aws-knowledge-mcp-server''
      = Own ''https://knowledge-mcp.global.api.aws''"
    using a registered by simp_all
  have b': "listTools offline ''nope'' start
      = (Inl (Error (''Server '' @ quote1 ''nope'' @ '' not found. Available servers: ''
                @ intercalate '', '' (getServerNames (this start)))), start)"
    "callToolStream offline ''nope'' ''search'' (JObj []) start
      = (Inl (Error (''Server '' @ quote1 ''nope'' @ '' not found. Available servers: ''
                @ intercalate '', '' (getServerNames (this start)))), start)"
    using b unknown by blast+
  have c': "listTools offline ''local'' blank
      = (Inl (Error (''Server '' @ quote1 ''local'' @ '' not found. Available servers: ''
                @ intercalate '', '' (getServerNames (this blank)))), blank)"
    using c empty by blast
  show ?thesis
    using registered unknown empty a' b' c' by (simp add: names)
qed

text \<open>
  Claim C6, at the inputs where the client departs from it. The known names are the keys
  of the registry: that is what \<^verbatim>\<open>getServerNames\<close> returns and what the error of the guard
  lists. The guard itself tests \<^verbatim>\<open>this.servers[serverName]\<close> for truthiness. The name
  \<^verbatim>\<open>constructor\<close> is not a key of the default registry, yet the lookup finds the member
  that every object inherits: validation passes, \<^verbatim>\<open>listTools\<close> and \<^verbatim>\<open>callToolStream\<close> use
  a request id and call \<^verbatim>\<open>fetch\<close> with a function in the place of the URL, and the error
  they end with is that of the network layer, which lists no names. The name
  \<^verbatim>\<open>local\<close> is a key of the registry \<^verbatim>\<open>{local: ""}\<close>, yet it is refused as not found,
  by an error that lists \<^verbatim>\<open>local\<close> among the available servers.
\<close>

theorem unregistered_name_reaches_fetch:
  "getServerNames (this start) = [''aws-knowledge-mcp-server'']
   \<and> map_of (servers (this start)) ''constructor'' = None
   \<and> validateServerName (this start) ''constructor'' = Inr ()
   \<and> listTools invalid_url ''constructor'' start
     = (Inl (Error (''Failed to fetch tools from constructor ''
               @ ''(function Object() { [native code] }): Invalid URL'')),
        emit [Fetch \<lparr>req_url = Inherited ''constructor'', req_payload = tools_request 1\<rparr>]
          (next_id start))
   \<and> callToolStream invalid_url ''constructor'' ''search'' (JObj []) start
     = (Inl (Error (''Failed to call tool '' @ quote1 ''search'' @ '' on constructor: Invalid URL'')),
        emit [Fetch \<lparr>req_url = Inherited ''constructor'',
                     req_payload = call_request 1 ''search'' (JObj [])\<rparr>]
          (next_id start))
   \<and> getServerNames (this blank) = [''local'']
   \<and> map_of (servers (this blank)) ''local'' = Some []
   \<and> validateServerName (this blank) ''local''
     = Inl (Error (''Server '' @ quote1 ''local'' @ '' not found. Available servers: local''))
   \<and> listTools offline ''local'' blank
     = (Inl (Error (''Server '' @ quote1 ''local'' @ '' not found. Available servers: local'')),
        blank)
   \<and> callToolStream offline ''local'' ''search'' (JObj []) blank
     = (Inl (Error (''Server '' @ quote1 ''local'' @ '' not found. Available servers: local'')),
        blank)"
proof -
  have names: "getServerNames (this start) = [''aws-knowledge-mcp-server'']"
    "getServerNames (this blank) = [''local'']"
    by (simp_all add: getServerNames_def srv_def blank_def fresh_def constructor_def)
  have a: "map_of (servers (this blank)) ''local'' = Some []"
    "validateServerName (this blank) ''local''
      = Inl (Error (''Server '' @ quote1 ''local'' @ '' not found. Available servers: local''))"
    by (simp_all add: blank_def fresh_def constructor_def validateServerName_def lookup_def)
  have refused: "listTools offline ''local'' blank
      = (Inl (Error (''Server '' @ quote1 ''local'' @ '' not found. Available servers: local'')),
         blank)"
    "callToolStream offline ''local'' ''search'' (JObj []) blank
      = (Inl (Error (''Server '' @ quote1 ''local'' @ '' not found. Available servers: local'')),
         blank)"
    by (simp_all add: listTools_def callToolStream_def a(2))
  have member: "lookup srv ''constructor'' = Inherited ''constructor''"
    by (simp add: lookup_def srv_def Object_prototype_def)
  have b: "map_of (servers (this start)) ''constructor'' = None"
    "validateServerName (this start) ''constructor'' = Inr ()"
    by (simp add: srv_def) (simp add: validateServerName_def member)
  let ?list = "\<lparr>req_url = Inherited ''constructor'', req_payload = tools_request 1\<rparr>"
  let ?call = "\<lparr>req_url = Inherited ''constructor'',
                 req_payload = call_request 1 ''search'' (JObj [])\<rparr>"
  have sent: "makeRequest invalid_url (Inherited ''constructor'') payload 0 (next_id start)
      = (Inl (TypeError ''Invalid URL''),
         emit [Fetch \<lparr>req_url = Inherited ''constructor'', req_payload = payload\<rparr>]
           (next_id start))" for payload
    by (intro makeRequest_give_up)
       (simp_all add: invalid_url_def isRetryableError_def TypeError_def)
  have "listTools_try invalid_url ''constructor'' (Inherited ''constructor'') start
      = (Inl (TypeError ''Invalid URL''), emit [Fetch ?list] (next_id start))"
    by (simp add: listTools_try_def sent)
  then have c: "listTools invalid_url ''constructor'' start
     = (Inl (Error (''Failed to fetch tools from constructor ''
               @ ''(function Object() { [native code] }): Invalid URL'')),
        emit [Fetch ?list] (next_id start))"
    by (simp add: listTools_def b member message_or_error_def TypeError_def)
  have "callToolStream_try invalid_url ''search'' (JObj []) (Inherited ''constructor'') start
      = (Inl (TypeError ''Invalid URL''), emit [Fetch ?call] (next_id start))"
    by (simp add: callToolStream_try_def sent)
  then have d: "callToolStream invalid_url ''constructor'' ''search'' (JObj []) start
     = (Inl (Error (''Failed to call tool '' @ quote1 ''search'' @ '' on constructor: Invalid URL'')),
        emit [Fetch ?call] (next_id start))"
    by (simp add: callToolStream_def b member message_or_error_def TypeError_def)
  show ?thesis using names a refused b c d by blast
qed

section \<open>The normalizer\<close>

lemma chunks_from_Nil [simp]: "chunks_from [] i = []"
  by (subst chunks_from_unfold) simp

lemma deliver_Nil [simp]: "deliver [] = []"
  by (simp add: deliver_def)

lemma streamItems_one:
  assumes "spec_item_text item = Some t"
  shows "streamItems p (item # items) s
     = streamItems p items (emit (deliver (map JStr (chunks_from t 0))) s)"
proof (cases "property (Some item) ''type''")
  case (Inl e)
  then show ?thesis using assms by (simp add: spec_item_text_def)
next
  case (Inr ty)
  show ?thesis
  proof (cases "ty = Some (JStr ''text'')")
    case False
    then have "t = []" using assms Inr by (simp add: spec_item_text_def)
    then show ?thesis using Inr False by simp
  next
    case True
    then consider (absent) "property (Some item) ''text'' = Inr None" "t = []"
      | (string) "property (Some item) ''text'' = Inr (Some (JStr t))"
      using assms Inr
      by (auto simp: spec_item_text_def split: sum.splits option.splits json.splits)
    then show ?thesis
    proof cases
      case absent
      then show ?thesis using Inr True by simp
    next
      case string
      then show ?thesis using Inr True by (cases "t = []") (simp_all add: streamText_JStr)
    qed
  qed
qed

lemma streamItems_spec:
  "map spec_item_text items = map Some ts \<Longrightarrow>
   streamItems p items s
     = (Inr (), emit (concat (map (\<lambda>t. deliver (map JStr (chunks_from t 0))) ts)) s)"
proof (induction items arbitrary: ts s)
  case Nil
  then show ?case by simp
next
  case (Cons item items)
  then obtain t ts' where ts: "ts = t # ts'" "spec_item_text item = Some t"
    "map spec_item_text items = map Some ts'"
    by (cases ts) auto
  show ?case
    using streamItems_one [OF ts(2), of p items s] Cons.IH [OF ts(3)]
    by (simp add: ts(1))
qed

lemma processToolResponse_content:
  "property result ''content'' = Inr (Some (JArr items)) \<Longrightarrow>
   processToolResponse p result s = streamItems p items s"
  by (simp add: processToolResponse_def)

lemma processToolResponse_text:
  "property result ''content'' = Inr c \<Longrightarrow> \<not> isArray c \<Longrightarrow>
   property result ''text'' = Inr (Some t) \<Longrightarrow> truthy (Some t) \<Longrightarrow>
   processToolResponse p result s = streamText p t s"
  by (simp add: processToolResponse_def)

lemma processToolResponse_fallback:
  "property (Some v) ''content'' = Inr c \<Longrightarrow> \<not> isArray c \<Longrightarrow>
   property (Some v) ''text'' = Inr t \<Longrightarrow> \<not> truthy t \<Longrightarrow>
   processToolResponse p (Some v) s = streamText p (JStr (JSON_stringify v)) s"
  by (cases t) (simp_all add: processToolResponse_def fallback_def)

lemma streamed_Nil [simp]: "streamed [] = []"
  by (simp add: streamed_def)

lemma streamed_streamText:
  "streamed (trace (snd (streamText p (JStr str) s))) = streamed (trace s) @ str"
  by (simp add: streamText_JStr concat_chunks_from)

lemma streamed_items:
  "streamed (concat (map (\<lambda>t. deliver (map JStr (chunks_from t 0))) ts)) = concat ts"
  by (induction ts) (simp_all add: concat_chunks_from)

lemma onData_calls_items:
  "onData_calls (concat (map (\<lambda>t. deliver (map JStr (chunks_from t 0))) ts))
     = map JStr (concat (map (\<lambda>t. chunks_from t 0) ts))"
  by (induction ts) simp_all

lemma spec_item_text_examples [simp]:
  "spec_item_text (text_item t) = Some t"
  "spec_item_text image_item = Some []"
  by (simp_all add: spec_item_text_def text_item_def image_item_def)

lemma JSON_stringify_other_shape:
  "JSON_stringify other_shape
     = ''{'' @ [CHR 0x0A] @ ''  '' @ [CHR 0x22] @ ''foo'' @ [CHR 0x22] @ '': 1'' @ [CHR 0x0A] @ ''}''"
  by (simp add: JSON_stringify_def other_shape_def QuoteJSONString_def quote_char_def
      Number_toString_def digit_def)

lemma JSON_stringify_empty_text:
  "JSON_stringify empty_text
     = ''{'' @ [CHR 0x0A] @ ''  '' @ [CHR 0x22] @ ''text'' @ [CHR 0x22] @ '': ''
       @ [CHR 0x22, CHR 0x22] @ [CHR 0x0A] @ ''}''"
  by (simp add: JSON_stringify_def empty_text_def QuoteJSONString_def quote_char_def)

text \<open>
  Claim C3, amended. The first matching rule decides what \<^verbatim>\<open>processToolResponse\<close> streams.
  (1) If \<^verbatim>\<open>content\<close> is an array of items to which rule 1 of the specification applies
  (\<open>spec_item_text\<close>), it returns normally and the text streamed is the concatenation, in
  order, of the \<^verbatim>\<open>text\<close> of exactly the items whose \<^verbatim>\<open>type\<close> is \<^verbatim>\<open>"text"\<close>. (2) Else, if
  the payload has a top-level \<^verbatim>\<open>text\<close> that is a non-empty string, it streams that string.
  (3) Else, so also when \<^verbatim>\<open>text\<close> is the empty string or another falsy value, it streams
  the pretty-printed JSON of the whole payload.
\<close>

theorem processToolResponse_shapes:
  "(property result ''content'' = Inr (Some (JArr items))
      \<and> map spec_item_text items = map Some ts \<longrightarrow>
        fst (processToolResponse p result s) = Inr ()
        \<and> streamed (trace (snd (processToolResponse p result s))) = streamed (trace s) @ concat ts)
   \<and> (property result ''content'' = Inr c \<and> \<not> isArray c
      \<and> property result ''text'' = Inr (Some (JStr t)) \<and> t \<noteq> [] \<longrightarrow>
        processToolResponse p result s = streamText p (JStr t) s
        \<and> streamed (trace (snd (processToolResponse p result s))) = streamed (trace s) @ t)
   \<and> (result = Some v \<and> property result ''content'' = Inr c \<and> \<not> isArray c
      \<and> property result ''text'' = Inr u \<and> \<not> truthy u \<longrightarrow>
        processToolResponse p result s = streamText p (JStr (JSON_stringify v)) s
        \<and> streamed (trace (snd (processToolResponse p result s)))
          = streamed (trace s) @ JSON_stringify v)"
proof -
  have first: "fst (processToolResponse p result s) = Inr ()
      \<and> streamed (trace (snd (processToolResponse p result s))) = streamed (trace s) @ concat ts"
    if "property result ''content'' = Inr (Some (JArr items))"
      "map spec_item_text items = map Some ts"
    using that by (simp add: processToolResponse_content streamItems_spec streamed_items)
  have second: "processToolResponse p result s = streamText p (JStr t) s
      \<and> streamed (trace (snd (processToolResponse p result s))) = streamed (trace s) @ t"
    if "property result ''content'' = Inr c" "\<not> isArray c"
      "property result ''text'' = Inr (Some (JStr t))" "t \<noteq> []"
    using that processToolResponse_text [of result c "JStr t" p s]
    by (simp add: streamed_streamText)
  have third: "processToolResponse p result s = streamText p (JStr (JSON_stringify v)) s
      \<and> streamed (trace (snd (processToolResponse p result s)))
        = streamed (trace s) @ JSON_stringify v"
    if "result = Some v" "property result ''content'' = Inr c" "\<not> isArray c"
      "property result ''text'' = Inr u" "\<not> truthy u"
    using that processToolResponse_fallback [of v c u p s]
    by (simp add: streamed_streamText)
  show ?thesis using first second third by blast
qed

text \<open>
  The three examples of the specification: the mixed content streams \<open>AB\<close>, the plain text
  streams \<open>hello\<close>, and \<^verbatim>\<open>{foo: 1}\<close> streams its serialisation on three lines.
\<close>

theorem processToolResponse_shapes_witness:
  "property (Some mixed_content) ''content''
     = Inr (Some (JArr [text_item ''A'', image_item, text_item ''B'']))
   \<and> map spec_item_text [text_item ''A'', image_item, text_item ''B''] = map Some [''A'', [], ''B'']
   \<and> fst (processToolResponse offline (Some mixed_content) start) = Inr ()
   \<and> streamed (trace (snd (processToolResponse offline (Some mixed_content) start))) = ''AB''
   \<and> property (Some plain_text) ''content'' = Inr None
   \<and> \<not> isArray None
   \<and> property (Some plain_text) ''text'' = Inr (Some (JStr ''hello''))
   \<and> streamed (trace (snd (processToolResponse offline (Some plain_text) start))) = ''hello''
   \<and> property (Some other_shape) ''content'' = Inr None
   \<and> property (Some other_shape) ''text'' = Inr None
   \<and> \<not> truthy None
   \<and> streamed (trace (snd (processToolResponse offline (Some other_shape) start)))
     = ''{'' @ [CHR 0x0A] @ ''  '' @ [CHR 0x22] @ ''foo'' @ [CHR 0x22] @ '': 1'' @ [CHR 0x0A] @ ''}''"
proof -
  have a: "property (Some mixed_content) ''content''
      = Inr (Some (JArr [text_item ''A'', image_item, text_item ''B'']))"
    "map spec_item_text [text_item ''A'', image_item, text_item ''B''] = map Some [''A'', [], ''B'']"
    by (simp_all add: mixed_content_def)
  have b: "property (Some plain_text) ''content'' = Inr None" "\<not> isArray None"
    "property (Some plain_text) ''text'' = Inr (Some (JStr ''hello''))" "''hello'' \<noteq> []"
    by (simp_all add: plain_text_def)
  have c: "property (Some other_shape) ''content'' = Inr None"
    "property (Some other_shape) ''text'' = Inr None" "\<not> truthy None"
    by (simp_all add: other_shape_def)
  note one = processToolResponse_shapes [of "Some mixed_content"
      "[text_item ''A'', image_item, text_item ''B'']" "[''A'', [], ''B'']" offline start]
  note two = processToolResponse_shapes [of "Some plain_text" _ _ offline start None "''hello''"]
  note three = processToolResponse_shapes [of "Some other_shape" _ _ offline start None _
      other_shape None]
  have a': "fst (processToolResponse offline (Some mixed_content) start) = Inr ()"
    "streamed (trace (snd (processToolResponse offline (Some mixed_content) start)))
      = streamed (trace start) @ concat [''A'', [], ''B'']"
    using one a by blast+
  have b': "streamed (trace (snd (processToolResponse offline (Some plain_text) start)))
      = streamed (trace start) @ ''hello''"
    using two b by blast
  have c': "streamed (trace (snd (processToolResponse offline (Some other_shape) start)))
      = streamed (trace start) @ JSON_stringify other_shape"
    using three c b(2) by blast
  have a'': "streamed (trace (snd (processToolResponse offline (Some mixed_content) start))) = ''AB''"
    using a'(2) by simp
  have b'': "streamed (trace (snd (processToolResponse offline (Some plain_text) start))) = ''hello''"
    using b' by simp
  have c'': "streamed (trace (snd (processToolResponse offline (Some other_shape) start)))
      = ''{'' @ [CHR 0x0A] @ ''  '' @ [CHR 0x22] @ ''foo'' @ [CHR 0x22] @ '': 1'' @ [CHR 0x0A] @ ''}''"
    using c' by (simp add: JSON_stringify_other_shape)
  show ?thesis using a a'(1) a'' b(1-3) b'' c c'' by blast
qed

text \<open>
  Claim C3 as stated fails for a payload whose top-level \<^verbatim>\<open>text\<close> is the empty string: the
  claim streams that string, so nothing; the client tests \<^verbatim>\<open>result.text\<close> for truthiness,
  falls through to the last rule and delivers the serialised payload as one chunk.
\<close>

theorem empty_text_counterexample:
  "property (Some empty_text) ''content'' = Inr None
   \<and> property (Some empty_text) ''text'' = Inr (Some (JStr []))
   \<and> onData_calls (trace (snd (processToolResponse offline (Some empty_text) start)))
     = [JStr (''{'' @ [CHR 0x0A] @ ''  '' @ [CHR 0x22] @ ''text'' @ [CHR 0x22] @ '': ''
              @ [CHR 0x22, CHR 0x22] @ [CHR 0x0A] @ ''}'')]
   \<and> streamed (trace (snd (processToolResponse offline (Some empty_text) start))) \<noteq> []"
proof -
  have shape: "property (Some empty_text) ''content'' = Inr None"
    "property (Some empty_text) ''text'' = Inr (Some (JStr []))"
    by (simp_all add: empty_text_def)
  have "processToolResponse offline (Some empty_text) start
      = streamText offline (JStr (JSON_stringify empty_text)) start"
    using shape by (intro processToolResponse_fallback [where c = None and t = "Some (JStr [])"]) simp_all
  then have run: "processToolResponse offline (Some empty_text) start
      = (Inr (), emit (deliver (map JStr (chunks_from (JSON_stringify empty_text) 0))) start)"
    by (simp add: streamText_JStr)
  have "chunks_from (JSON_stringify empty_text) 0 = [JSON_stringify empty_text]"
    by (simp add: JSON_stringify_empty_text chunks_from_unfold)
  then show ?thesis
    using shape run by (simp add: JSON_stringify_empty_text streamed_def)
qed

text \<open>
  Claim C5, amended. When \<^verbatim>\<open>content\<close> is an array of items to which rule 1 applies, the
  chunks delivered are the 50-character slices of each item's text, cut item by item and
  delivered in item order: every boundary between two contributing items is also a
  boundary between two chunks.
\<close>

theorem processToolResponse_chunks_per_item:
  assumes "property result ''content'' = Inr (Some (JArr items))"
    and "map spec_item_text items = map Some ts"
  shows "fst (processToolResponse p result s) = Inr ()
     \<and> onData_calls (trace (snd (processToolResponse p result s)))
       = onData_calls (trace s) @ map JStr (concat (map (\<lambda>t. chunks_from t 0) ts))"
  using assms by (simp add: processToolResponse_content streamItems_spec onData_calls_items)

text \<open>Two text items of 60 characters arrive as chunks of 50, 10, 50 and 10 characters.\<close>

theorem processToolResponse_chunks_per_item_witness:
  "property (Some two_items) ''content''
     = Inr (Some (JArr [text_item (replicate 60 (CHR ''a'')), text_item (replicate 60 (CHR ''b''))]))
   \<and> map spec_item_text [text_item (replicate 60 (CHR ''a'')), text_item (replicate 60 (CHR ''b''))]
     = map Some [replicate 60 (CHR ''a''), replicate 60 (CHR ''b'')]
   \<and> fst (processToolResponse offline (Some two_items) start) = Inr ()
   \<and> onData_calls (trace (snd (processToolResponse offline (Some two_items) start)))
     = [JStr (replicate 50 (CHR ''a'')), JStr (replicate 10 (CHR ''a'')),
        JStr (replicate 50 (CHR ''b'')), JStr (replicate 10 (CHR ''b''))]"
proof -
  have shape: "property (Some two_items) ''content''
      = Inr (Some (JArr [text_item (replicate 60 (CHR ''a'')), text_item (replicate 60 (CHR ''b''))]))"
    "map spec_item_text [text_item (replicate 60 (CHR ''a'')), text_item (replicate 60 (CHR ''b''))]
      = map Some [replicate 60 (CHR ''a''), replicate 60 (CHR ''b'')]"
    by (simp_all add: two_items_def)
  note fact = processToolResponse_chunks_per_item [OF shape, of offline start]
  have cut: "chunks_from (replicate 60 c) 0 = [replicate 50 c, replicate 10 c]" for c :: char
    by (simp add: chunks_from_unfold)
  have "onData_calls (trace (snd (processToolResponse offline (Some two_items) start)))
     = [JStr (replicate 50 (CHR ''a'')), JStr (replicate 10 (CHR ''a'')),
        JStr (replicate 50 (CHR ''b'')), JStr (replicate 10 (CHR ''b''))]"
    using fact by (simp add: cut)
  then show ?thesis using shape fact by blast
qed

text \<open>
  Claim C5 as stated fails on these two items: the slices of the concatenated 120
  characters have lengths 50, 50 and 20, and the second of them would mix both items;
  the client delivers four chunks.
\<close>

theorem item_boundaries_counterexample:
  "map length (chunks_from (replicate 60 (CHR ''a'') @ replicate 60 (CHR ''b'')) 0) = [50, 50, 20]
   \<and> onData_calls (trace (snd (processToolResponse offline (Some two_items) start)))
     = [JStr (replicate 50 (CHR ''a'')), JStr (replicate 10 (CHR ''a'')),
        JStr (replicate 50 (CHR ''b'')), JStr (replicate 10 (CHR ''b''))]
   \<and> onData_calls (trace (snd (processToolResponse offline (Some two_items) start)))
     \<noteq> map JStr (chunks_from (replicate 60 (CHR ''a'') @ replicate 60 (CHR ''b'')) 0)"
proof -
  have one: "chunks_from (replicate 60 (CHR ''a'') @ replicate 60 (CHR ''b'')) 0
      = [replicate 50 (CHR ''a''), replicate 10 (CHR ''a'') @ replicate 40 (CHR ''b''),
         replicate 20 (CHR ''b'')]"
    by (simp add: chunks_from_unfold)
  have cut: "chunks_from (replicate 60 c) 0 = [replicate 50 c, replicate 10 c]" for c :: char
    by (simp add: chunks_from_unfold)
  have "processToolResponse offline (Some two_items) start
      = streamItems offline [text_item (replicate 60 (CHR ''a'')), text_item (replicate 60 (CHR ''b''))] start"
    by (intro processToolResponse_content) (simp add: two_items_def)
  also have "\<dots> = (Inr (), emit (concat (map (\<lambda>t. deliver (map JStr (chunks_from t 0)))
      [replicate 60 (CHR ''a''), replicate 60 (CHR ''b'')])) start)"
    by (intro streamItems_spec) simp
  finally have "onData_calls (trace (snd (processToolResponse offline (Some two_items) start)))
     = [JStr (replicate 50 (CHR ''a'')), JStr (replicate 10 (CHR ''a'')),
        JStr (replicate 50 (CHR ''b'')), JStr (replicate 10 (CHR ''b''))]"
    by (simp add: cut)
  then show ?thesis by (simp add: one)
qed

section \<open>What one call adds to the trace\<close>

lemma makeRequest_shape:
  "\<exists>n. snd (makeRequest p url payload retryCount s)
     = emit (backoffs \<lparr>req_url = url, req_payload = payload\<rparr> retryCount n
             @ [Fetch \<lparr>req_url = url, req_payload = payload\<rparr>]) s"
proof (induction p url payload retryCount s rule: makeRequest.induct)
  case (1 p url payload retryCount s)
  let ?req = "\<lparr>req_url = url, req_payload = payload\<rparr>"
  show ?case
  proof (cases "fetch p (attempts s) ?req")
    case (Resolved r)
    then have "snd (makeRequest p url payload retryCount s) = emit (backoffs ?req retryCount 0 @ [Fetch ?req]) s"
      by (simp add: makeRequest_Resolved)
    then show ?thesis by blast
  next
    case (Rejected e)
    show ?thesis
    proof (cases "int retryCount < maxRetries (this s) \<and> isRetryableError e")
      case True
      let ?s = "emit [Fetch ?req, Delay (2 ^ retryCount * 1000)] s"
      from 1 [OF Rejected True] obtain n where
        "snd (makeRequest p url payload (retryCount + 1) ?s)
          = emit (backoffs ?req (retryCount + 1) n @ [Fetch ?req]) ?s"
        by blast
      then have "snd (makeRequest p url payload retryCount s)
          = emit (backoffs ?req retryCount (Suc n) @ [Fetch ?req]) s"
        using Rejected True by (simp add: makeRequest_retry backoffs_Suc)
      then show ?thesis by blast
    next
      case False
      then have "snd (makeRequest p url payload retryCount s) = emit (backoffs ?req retryCount 0 @ [Fetch ?req]) s"
        using Rejected by (simp add: makeRequest_give_up)
      then show ?thesis by blast
    qed
  qed
qed

lemma delivery_only_refl [simp]: "delivery_only s s"
proof -
  have "s = emit [] s \<and> fetches [] = []" by simp
  then show ?thesis unfolding delivery_only_def by blast
qed

lemma delivery_only_trans:
  "delivery_only s s' \<Longrightarrow> delivery_only s' s'' \<Longrightarrow> delivery_only s s''"
proof -
  assume "delivery_only s s'" "delivery_only s' s''"
  then obtain as bs where "s' = emit as s" "fetches as = []" "s'' = emit bs s'" "fetches bs = []"
    unfolding delivery_only_def by blast
  then have "s'' = emit (as @ bs) s \<and> fetches (as @ bs) = []" by simp
  then show ?thesis unfolding delivery_only_def by blast
qed

lemma delivery_only_deliver [simp]: "delivery_only s (emit (deliver cs) s)"
proof -
  have "emit (deliver cs) s = emit (deliver cs) s \<and> fetches (deliver cs) = []" by simp
  then show ?thesis unfolding delivery_only_def by blast
qed

lemma streamText_delivery: "streamText p v s = (r, s') \<Longrightarrow> delivery_only s s'"
  by (cases v) (auto simp: streamText_def split: sum.splits if_splits)

lemma streamItems_delivery: "streamItems p items s = (r, s') \<Longrightarrow> delivery_only s s'"
proof (induction items arbitrary: s r s')
  case Nil
  then show ?case by simp
next
  case (Cons item items)
  show ?case
    using Cons.prems
    by (auto split: sum.splits option.splits prod.splits if_splits
        dest!: Cons.IH streamText_delivery intro: delivery_only_trans)
qed

lemma processToolResponse_delivery:
  "processToolResponse p result s = (r, s') \<Longrightarrow> delivery_only s s'"
  by (auto simp: processToolResponse_def fallback_def split: sum.splits option.splits if_splits
      dest!: streamItems_delivery streamText_delivery)

lemma delivery_only_trace:
  "delivery_only s s' \<Longrightarrow> \<exists>evs. trace s' = trace s @ evs \<and> fetches evs = []"
  by (auto simp: delivery_only_def)

section \<open>No chunk before the payload is known\<close>

lemma makeRequest_no_chunks:
  assumes "makeRequest p url payload retryCount s = (out, s1)"
  shows "onData_calls (trace s1) = onData_calls (trace s)"
proof -
  obtain n where "snd (makeRequest p url payload retryCount s)
      = emit (backoffs \<lparr>req_url = url, req_payload = payload\<rparr> retryCount n
              @ [Fetch \<lparr>req_url = url, req_payload = payload\<rparr>]) s"
    using makeRequest_shape by blast
  then show ?thesis using assms by simp
qed

lemma callToolStream_try_cases:
  assumes "makeRequest p url (call_request (requestId (this s)) tool args) 0 (next_id s) = (out, s1)"
  shows "snd (callToolStream_try p tool args url s) = s1
     \<or> (\<exists>r buffer result err res.
           out = Inr r \<and> ok r \<and> body r = Complete buffer \<and> JSON_parse p buffer = Inr result
           \<and> property (Some result) ''error'' = Inr err \<and> \<not> truthy err
           \<and> property (Some result) ''result'' = Inr res
           \<and> callToolStream_try p tool args url s = processToolResponse p res s1)"
  using assms
  by (auto simp: callToolStream_try_def split: sum.splits body.splits if_splits)

lemma snd_callToolStream:
  "validateServerName (this s) serverName = Inr () \<Longrightarrow>
   snd (callToolStream p serverName tool args s)
     = snd (callToolStream_try p tool args (lookup (servers (this s)) serverName) s)"
  by (simp add: callToolStream_def split: prod.splits sum.splits)

text \<open>
  Claim C9. Take a call of \<^verbatim>\<open>callToolStream\<close> and let \<open>(out, s1)\<close> be the outcome and the
  state of its transport stage, \<^verbatim>\<open>makeRequest\<close> with all its retries. The transport stage
  calls the consumer's callback not once. And either the whole call calls it not once,
  or every stage before the normalizer succeeded: the server name is valid, the
  transport returned a response, the response is \<^verbatim>\<open>ok\<close>, its body was read to the end and
  parsed as JSON, and the parsed value has no truthy \<^verbatim>\<open>error\<close>; then what the call adds
  after \<open>s1\<close> is what \<^verbatim>\<open>processToolResponse\<close> adds, which sends nothing. So a call that fails
  at validation, transport, parse or error envelope delivers no chunk, and every chunk
  comes after the last request.
\<close>

theorem callToolStream_atomic:
  assumes "makeRequest p (lookup (servers (this s)) serverName)
             (call_request (requestId (this s)) tool args) 0 (next_id s) = (out, s1)"
  shows "onData_calls (trace s1) = onData_calls (trace s)
     \<and> (onData_calls (trace (snd (callToolStream p serverName tool args s))) = onData_calls (trace s)
        \<or> (validateServerName (this s) serverName = Inr ()
           \<and> (\<exists>r buffer result err res.
                out = Inr r \<and> ok r \<and> body r = Complete buffer \<and> JSON_parse p buffer = Inr result
                \<and> property (Some result) ''error'' = Inr err \<and> \<not> truthy err
                \<and> property (Some result) ''result'' = Inr res
                \<and> snd (callToolStream p serverName tool args s) = snd (processToolResponse p res s1)
                \<and> (\<exists>evs. trace (snd (processToolResponse p res s1)) = trace s1 @ evs
                      \<and> fetches evs = []))))"
proof -
  have transport: "onData_calls (trace s1) = onData_calls (trace s)"
    using makeRequest_no_chunks [OF assms] by simp
  show ?thesis
  proof (cases "validateServerName (this s) serverName")
    case (Inl e)
    then have "snd (callToolStream p serverName tool args s) = s"
      by (simp add: callToolStream_invalid)
    then show ?thesis using transport by simp
  next
    case (Inr u)
    then have valid: "validateServerName (this s) serverName = Inr ()" by simp
    note final = snd_callToolStream [OF valid, of p tool args]
    from callToolStream_try_cases [OF assms] show ?thesis
    proof
      assume "snd (callToolStream_try p tool args (lookup (servers (this s)) serverName) s) = s1"
      then show ?thesis using final transport by simp
    next
      assume "\<exists>r buffer result err res.
           out = Inr r \<and> ok r \<and> body r = Complete buffer \<and> JSON_parse p buffer = Inr result
           \<and> property (Some result) ''error'' = Inr err \<and> \<not> truthy err
           \<and> property (Some result) ''result'' = Inr res
           \<and> callToolStream_try p tool args (lookup (servers (this s)) serverName) s
             = processToolResponse p res s1"
      then obtain r buffer result err res where stages:
        "out = Inr r" "ok r" "body r = Complete buffer" "JSON_parse p buffer = Inr result"
        "property (Some result) ''error'' = Inr err" "\<not> truthy err"
        "property (Some result) ''result'' = Inr res"
        "callToolStream_try p tool args (lookup (servers (this s)) serverName) s
           = processToolResponse p res s1"
        by blast
      have "delivery_only s1 (snd (processToolResponse p res s1))"
        using processToolResponse_delivery [of p res s1] by (simp add: prod_eq_iff)
      then have "\<exists>evs. trace (snd (processToolResponse p res s1)) = trace s1 @ evs
          \<and> fetches evs = []"
        by (rule delivery_only_trace)
      moreover have "snd (callToolStream p serverName tool args s)
          = snd (processToolResponse p res s1)"
        using final stages(8) by simp
      ultimately show ?thesis using transport valid stages(1-7) by blast
    qed
  qed
qed

lemma parse_known [simp]: "parse [v] (JSON_stringify v) = Inr v"
  by (simp add: parse_def)

lemma parse_nothing [simp]: "parse [] t = Inl (SyntaxError t)"
  by (simp add: parse_def)

lemma answering_simps [simp]:
  "fetch (answering known r) n req = Resolved r"
  "JSON_parse (answering known r) = parse known"
  "json_of_text (answering known r) = parse known"
  by (simp_all add: answering_def)

text \<open>
  A call that is answered with the mixed content delivers \<open>A\<close> and \<open>B\<close>, after the single
  request. The same call answered with status 503 delivers nothing.
\<close>

theorem callToolStream_atomic_witness:
  "makeRequest (answering [call_reply] call_response) (lookup (servers (this start)) ''aws-knowledge-mcp-server'')
       (call_request (requestId (this start)) ''search'' (JObj [])) 0 (next_id start)
     = (Inr call_response,
        emit [Fetch \<lparr>req_url = aws, req_payload = call_request 1 ''search'' (JObj [])\<rparr>]
          (next_id start))
   \<and> onData_calls (trace (emit [Fetch \<lparr>req_url = aws,
           req_payload = call_request 1 ''search'' (JObj [])\<rparr>] (next_id start))) = []
   \<and> validateServerName (this start) ''aws-knowledge-mcp-server'' = Inr ()
   \<and> ok call_response
   \<and> onData_calls (trace (snd (callToolStream (answering [call_reply] call_response)
         ''aws-knowledge-mcp-server'' ''search'' (JObj []) start)))
     = [JStr ''A'', JStr ''B'']
   \<and> makeRequest (answering [] unavailable) (lookup (servers (this start)) ''aws-knowledge-mcp-server'')
       (call_request (requestId (this start)) ''search'' (JObj [])) 0 (next_id start)
     = (Inr unavailable,
        emit [Fetch \<lparr>req_url = aws, req_payload = call_request 1 ''search'' (JObj [])\<rparr>]
          (next_id start))
   \<and> onData_calls (trace (snd (callToolStream (answering [] unavailable)
         ''aws-knowledge-mcp-server'' ''search'' (JObj []) start))) = []"
proof -
  let ?req = "\<lparr>req_url = aws, req_payload = call_request 1 ''search'' (JObj [])\<rparr>"
  let ?s1 = "emit [Fetch ?req] (next_id start)"
  let ?good = "answering [call_reply] call_response"
  let ?bad = "answering [] unavailable"
  have sent: "makeRequest (answering known r) (lookup (servers (this start)) ''aws-knowledge-mcp-server'')
       (call_request (requestId (this start)) ''search'' (JObj [])) 0 (next_id start)
     = (Inr r, ?s1)" for known r
    by (simp add: makeRequest_Resolved)
  note good = callToolStream_atomic [OF sent [of "[call_reply]" call_response]]
  note bad = callToolStream_atomic [OF sent [of "[]" unavailable]]
  have quiet: "onData_calls (trace ?s1) = []"
    using good by simp
  have valid: "validateServerName (this start) ''aws-knowledge-mcp-server'' = Inr ()"
    by simp
  have ok: "ok call_response" "\<not> ok unavailable"
    by (simp_all add: ok_def call_response_def unavailable_def)
  have "callToolStream_try ?good ''search'' (JObj []) aws start
      = processToolResponse ?good (Some mixed_content) ?s1"
    using sent [of "[call_reply]" call_response]
    by (simp add: callToolStream_try_def ok)
       (simp add: call_response_def call_reply_def)
  also have "\<dots> = streamItems ?good [text_item ''A'', image_item, text_item ''B''] ?s1"
    by (intro processToolResponse_content) (simp add: mixed_content_def)
  also have "\<dots> = (Inr (), emit (concat (map (\<lambda>t. deliver (map JStr (chunks_from t 0)))
      [''A'', [], ''B''])) ?s1)"
    by (intro streamItems_spec) simp
  finally have "snd (callToolStream ?good ''aws-knowledge-mcp-server'' ''search'' (JObj []) start)
      = emit (concat (map (\<lambda>t. deliver (map JStr (chunks_from t 0))) [''A'', [], ''B''])) ?s1"
    by (simp add: snd_callToolStream)
  then have delivered: "onData_calls (trace (snd (callToolStream ?good
        ''aws-knowledge-mcp-server'' ''search'' (JObj []) start))) = [JStr ''A'', JStr ''B'']"
    by (simp add: chunks_from_unfold)
  have silent: "onData_calls (trace (snd (callToolStream ?bad
        ''aws-knowledge-mcp-server'' ''search'' (JObj []) start))) = []"
    using bad ok(2) by auto
  show ?thesis
    using sent [of "[call_reply]" call_response] sent [of "[]" unavailable] quiet ok(1)
      delivered silent valid
    by blast
qed

section \<open>Failures that are not transient\<close>

lemma listTools_valid:
  "validateServerName (this s) serverName = Inr () \<Longrightarrow>
   listTools_try p serverName (lookup (servers (this s)) serverName) s = (Inl e, s') \<Longrightarrow>
   listTools p serverName s
     = (Inl (Error (''Failed to fetch tools from '' @ serverName @ '' (''
              @ String_member (lookup (servers (this s)) serverName) @ ''): ''
              @ message_or_error e)), s')"
  by (simp add: listTools_def)

lemma callToolStream_valid:
  "validateServerName (this s) serverName = Inr () \<Longrightarrow>
   callToolStream_try p tool args (lookup (servers (this s)) serverName) s = (Inl e, s') \<Longrightarrow>
   callToolStream p serverName tool args s
     = (Inl (Error (''Failed to call tool '' @ quote1 tool @ '' on '' @ serverName
              @ '': '' @ message_or_error e)), s')"
  by (simp add: callToolStream_def)

lemma message_or_error_Error [simp]: "m \<noteq> [] \<Longrightarrow> message_or_error (Error m) = m"
  by (simp add: message_or_error_def Error_def)

lemma http_error_text:
  "response_text r = Inr b \<Longrightarrow>
   http_error r = Error (''HTTP '' @ Number_toString (status r) @ '': '' @ statusText r
                    @ ''. Body: '' @ b)"
  by (simp add: http_error_def)

lemma rpc_error_text:
  "property err ''code'' = Inr c \<Longrightarrow> String c = Inr cs \<Longrightarrow>
   property err ''message'' = Inr m \<Longrightarrow> String m = Inr ms \<Longrightarrow>
   rpc_error label err = Error (label @ '' ('' @ cs @ ''): '' @ ms)"
  by (simp add: rpc_error_def)

lemma listTools_non_transient:
  assumes "validateServerName (this s) serverName = Inr ()"
    and "makeRequest p (lookup (servers (this s)) serverName)
           (tools_request (requestId (this s))) 0 (next_id s) = (Inr r, s1)"
  shows "\<not> ok r \<Longrightarrow> response_text r = Inr b \<Longrightarrow>
      listTools p serverName s
        = (Inl (Error (''Failed to fetch tools from '' @ serverName @ '' (''
                 @ String_member (lookup (servers (this s)) serverName) @ ''): ''
                 @ ''HTTP '' @ Number_toString (status r) @ '': '' @ statusText r
                 @ ''. Body: '' @ b)), s1)"
    and "ok r \<Longrightarrow> response_json p r = Inl e \<Longrightarrow>
      listTools p serverName s
        = (Inl (Error (''Failed to fetch tools from '' @ serverName @ '' (''
                 @ String_member (lookup (servers (this s)) serverName) @ ''): ''
                 @ message_or_error e)), s1)"
    and "ok r \<Longrightarrow> response_json p r = Inr result \<Longrightarrow>
      property (Some result) ''error'' = Inr err \<Longrightarrow> truthy err \<Longrightarrow>
      property err ''code'' = Inr c \<Longrightarrow> String c = Inr cs \<Longrightarrow>
      property err ''message'' = Inr m \<Longrightarrow> String m = Inr ms \<Longrightarrow>
      listTools p serverName s
        = (Inl (Error (''Failed to fetch tools from '' @ serverName @ '' (''
                 @ String_member (lookup (servers (this s)) serverName) @ ''): ''
                 @ ''JSON-RPC Error ('' @ cs @ ''): '' @ ms)), s1)"
    and "fetch p (attempts s) \<lparr>req_url = lookup (servers (this s)) serverName,
           req_payload = tools_request (requestId (this s))\<rparr> = Resolved r \<Longrightarrow>
      s1 = emit [Fetch \<lparr>req_url = lookup (servers (this s)) serverName,
                   req_payload = tools_request (requestId (this s))\<rparr>] (next_id s)"
proof -
  let ?url = "lookup (servers (this s)) serverName"
  note sent = assms(2)
  show "listTools p serverName s
        = (Inl (Error (''Failed to fetch tools from '' @ serverName @ '' (''
                 @ String_member ?url @ ''): ''
                 @ ''HTTP '' @ Number_toString (status r) @ '': '' @ statusText r
                 @ ''. Body: '' @ b)), s1)"
    if "\<not> ok r" "response_text r = Inr b"
  proof -
    have "listTools_try p serverName ?url s = (Inl (http_error r), s1)"
      using that(1) by (simp add: listTools_try_def sent)
    from listTools_valid [OF assms(1) this] show ?thesis
      by (simp add: http_error_text [OF that(2)])
  qed
  show "listTools p serverName s
        = (Inl (Error (''Failed to fetch tools from '' @ serverName @ '' (''
                 @ String_member ?url @ ''): '' @ message_or_error e)), s1)"
    if "ok r" "response_json p r = Inl e"
  proof -
    have "listTools_try p serverName ?url s = (Inl e, s1)"
      using that by (simp add: listTools_try_def sent)
    from listTools_valid [OF assms(1) this] show ?thesis
      by simp
  qed
  show "listTools p serverName s
        = (Inl (Error (''Failed to fetch tools from '' @ serverName @ '' (''
                 @ String_member ?url @ ''): ''
                 @ ''JSON-RPC Error ('' @ cs @ ''): '' @ ms)), s1)"
    if "ok r" "response_json p r = Inr result"
      "property (Some result) ''error'' = Inr err" "truthy err"
      "property err ''code'' = Inr c" "String c = Inr cs"
      "property err ''message'' = Inr m" "String m = Inr ms"
  proof -
    have "listTools_try p serverName ?url s = (Inl (rpc_error ''JSON-RPC Error'' err), s1)"
      using that(1-4) by (simp add: listTools_try_def sent)
    from listTools_valid [OF assms(1) this] show ?thesis
      by (simp add: rpc_error_text [OF that(5-8)])
  qed
  show "s1 = emit [Fetch \<lparr>req_url = ?url, req_payload = tools_request (requestId (this s))\<rparr>]
               (next_id s)"
    if "fetch p (attempts s) \<lparr>req_url = ?url,
          req_payload = tools_request (requestId (this s))\<rparr> = Resolved r"
    using makeRequest_Resolved [of p "next_id s" ?url "tools_request (requestId (this s))" r 0]
      that sent by simp
qed

lemma callToolStream_non_transient:
  assumes "validateServerName (this s) serverName = Inr ()"
    and "makeRequest p (lookup (servers (this s)) serverName)
           (call_request (requestId (this s)) tool args) 0 (next_id s) = (Inr r, s2)"
  shows "\<not> ok r \<Longrightarrow> response_text r = Inr b \<Longrightarrow>
      callToolStream p serverName tool args s
        = (Inl (Error (''Failed to call tool '' @ quote1 tool @ '' on '' @ serverName @ '': ''
                 @ ''HTTP '' @ Number_toString (status r) @ '': '' @ statusText r
                 @ ''. Body: '' @ b)), s2)"
    and "ok r \<Longrightarrow> body r = Complete buffer \<Longrightarrow> JSON_parse p buffer = Inl e \<Longrightarrow>
      callToolStream p serverName tool args s
        = (Inl (Error (''Failed to call tool '' @ quote1 tool @ '' on '' @ serverName @ '': ''
                 @ ''Invalid JSON response: '' @ message_or_error e
                 @ ''. Response: '' @ take 200 buffer @ ''...'')), s2)"
    and "ok r \<Longrightarrow> body r = Complete buffer \<Longrightarrow> JSON_parse p buffer = Inr result \<Longrightarrow>
      property (Some result) ''error'' = Inr err \<Longrightarrow> truthy err \<Longrightarrow>
      property err ''code'' = Inr c \<Longrightarrow> String c = Inr cs \<Longrightarrow>
      property err ''message'' = Inr m \<Longrightarrow> String m = Inr ms \<Longrightarrow>
      callToolStream p serverName tool args s
        = (Inl (Error (''Failed to call tool '' @ quote1 tool @ '' on '' @ serverName @ '': ''
                 @ ''Tool Error ('' @ cs @ ''): '' @ ms)), s2)"
    and "fetch p (attempts s) \<lparr>req_url = lookup (servers (this s)) serverName,
           req_payload = call_request (requestId (this s)) tool args\<rparr> = Resolved r \<Longrightarrow>
      s2 = emit [Fetch \<lparr>req_url = lookup (servers (this s)) serverName,
                   req_payload = call_request (requestId (this s)) tool args\<rparr>] (next_id s)"
proof -
  let ?url = "lookup (servers (this s)) serverName"
  note sent = assms(2)
  show "callToolStream p serverName tool args s
        = (Inl (Error (''Failed to call tool '' @ quote1 tool @ '' on '' @ serverName @ '': ''
                 @ ''HTTP '' @ Number_toString (status r) @ '': '' @ statusText r
                 @ ''. Body: '' @ b)), s2)"
    if "\<not> ok r" "response_text r = Inr b"
  proof -
    have "callToolStream_try p tool args ?url s = (Inl (http_error r), s2)"
      using that(1) by (simp add: callToolStream_try_def sent)
    from callToolStream_valid [OF assms(1) this] show ?thesis
      by (simp add: http_error_text [OF that(2)])
  qed
  show "callToolStream p serverName tool args s
        = (Inl (Error (''Failed to call tool '' @ quote1 tool @ '' on '' @ serverName @ '': ''
                 @ ''Invalid JSON response: '' @ message_or_error e
                 @ ''. Response: '' @ take 200 buffer @ ''...'')), s2)"
    if "ok r" "body r = Complete buffer" "JSON_parse p buffer = Inl e"
  proof -
    have "callToolStream_try p tool args ?url s
        = (Inl (Error (''Invalid JSON response: '' @ message_or_error e
                  @ ''. Response: '' @ take 200 buffer @ ''...'')), s2)"
      using that by (simp add: callToolStream_try_def sent)
    from callToolStream_valid [OF assms(1) this] show ?thesis
      by simp
  qed
  show "callToolStream p serverName tool args s
        = (Inl (Error (''Failed to call tool '' @ quote1 tool @ '' on '' @ serverName @ '': ''
                 @ ''Tool Error ('' @ cs @ ''): '' @ ms)), s2)"
    if "ok r" "body r = Complete buffer" "JSON_parse p buffer = Inr result"
      "property (Some result) ''error'' = Inr err" "truthy err"
      "property err ''code'' = Inr c" "String c = Inr cs"
      "property err ''message'' = Inr m" "String m = Inr ms"
  proof -
    have "callToolStream_try p tool args ?url s = (Inl (rpc_error ''Tool Error'' err), s2)"
      using that(1-5) by (simp add: callToolStream_try_def sent)
    from callToolStream_valid [OF assms(1) this] show ?thesis
      by (simp add: rpc_error_text [OF that(6-9)])
  qed
  show "s2 = emit [Fetch \<lparr>req_url = ?url,
                     req_payload = call_request (requestId (this s)) tool args\<rparr>] (next_id s)"
    if "fetch p (attempts s) \<lparr>req_url = ?url,
          req_payload = call_request (requestId (this s)) tool args\<rparr> = Resolved r"
    using makeRequest_Resolved
      [of p "next_id s" ?url "call_request (requestId (this s)) tool args" r 0]
      that sent by simp
qed

text \<open>
  Claim C8. Each operation is taken with a state, a platform and a response of its own.
  Let the server name be valid and let the transport stage of \<^verbatim>\<open>listTools\<close> return a
  response \<open>r\<close>, leaving the state \<open>s1\<close>. In each of the following cases \<^verbatim>\<open>listTools\<close>
  throws and ends in that same state: after the response nothing is sent and nothing is
  slept. When the response answers the first attempt, the one call of \<^verbatim>\<open>fetch\<close> is the
  only event.
  (1) \<open>r\<close> is not \<^verbatim>\<open>ok\<close> (any status outside 200 to 299, such as 404): the error names the
  status code, the status text and the body. (2) \<open>r\<close> is \<^verbatim>\<open>ok\<close> and its body is not JSON:
  the error is that of \<^verbatim>\<open>response.json()\<close>. (3) \<open>r\<close> is \<^verbatim>\<open>ok\<close> and the parsed body has a
  truthy \<^verbatim>\<open>error\<close>: the error names the upstream code and message. Each is wrapped with
  the server name and URL.
  Likewise let the transport stage of \<^verbatim>\<open>callToolStream\<close> return a response \<open>r'\<close>, leaving
  \<open>s2\<close>: in the same three cases \<^verbatim>\<open>callToolStream\<close> throws and ends in \<open>s2\<close>, and a
  response to the first attempt leaves one call of \<^verbatim>\<open>fetch\<close> as the only event. In case
  (2) the error carries the parser's message and the first 200 characters of the body.
  Each is wrapped with the tool and server name.
\<close>

theorem non_transient_failures_not_retried:
  "(validateServerName (this s) serverName = Inr ()
    \<and> makeRequest p (lookup (servers (this s)) serverName)
          (tools_request (requestId (this s))) 0 (next_id s) = (Inr r, s1) \<longrightarrow>
      (\<not> ok r \<and> response_text r = Inr b \<longrightarrow>
         listTools p serverName s
           = (Inl (Error (''Failed to fetch tools from '' @ serverName @ '' (''
                    @ String_member (lookup (servers (this s)) serverName) @ ''): ''
                    @ ''HTTP '' @ Number_toString (status r) @ '': '' @ statusText r
                    @ ''. Body: '' @ b)), s1))
      \<and> (ok r \<and> response_json p r = Inl e \<longrightarrow>
         listTools p serverName s
           = (Inl (Error (''Failed to fetch tools from '' @ serverName @ '' (''
                    @ String_member (lookup (servers (this s)) serverName) @ ''): ''
                    @ message_or_error e)), s1))
      \<and> (ok r \<and> response_json p r = Inr result
          \<and> property (Some result) ''error'' = Inr err \<and> truthy err
          \<and> property err ''code'' = Inr c \<and> String c = Inr cs
          \<and> property err ''message'' = Inr m \<and> String m = Inr ms \<longrightarrow>
         listTools p serverName s
           = (Inl (Error (''Failed to fetch tools from '' @ serverName @ '' (''
                    @ String_member (lookup (servers (this s)) serverName) @ ''): ''
                    @ ''JSON-RPC Error ('' @ cs @ ''): '' @ ms)), s1))
      \<and> (fetch p (attempts s) \<lparr>req_url = lookup (servers (this s)) serverName,
              req_payload = tools_request (requestId (this s))\<rparr> = Resolved r \<longrightarrow>
         s1 = emit [Fetch \<lparr>req_url = lookup (servers (this s)) serverName,
                      req_payload = tools_request (requestId (this s))\<rparr>] (next_id s)))
   \<and> (validateServerName (this s') serverName' = Inr ()
    \<and> makeRequest p' (lookup (servers (this s')) serverName')
          (call_request (requestId (this s')) tool args) 0 (next_id s') = (Inr r', s2) \<longrightarrow>
      (\<not> ok r' \<and> response_text r' = Inr b' \<longrightarrow>
         callToolStream p' serverName' tool args s'
           = (Inl (Error (''Failed to call tool '' @ quote1 tool @ '' on '' @ serverName' @ '': ''
                    @ ''HTTP '' @ Number_toString (status r') @ '': '' @ statusText r'
                    @ ''. Body: '' @ b')), s2))
      \<and> (ok r' \<and> body r' = Complete buffer \<and> JSON_parse p' buffer = Inl e' \<longrightarrow>
         callToolStream p' serverName' tool args s'
           = (Inl (Error (''Failed to call tool '' @ quote1 tool @ '' on '' @ serverName' @ '': ''
                    @ ''Invalid JSON response: '' @ message_or_error e'
                    @ ''. Response: '' @ take 200 buffer @ ''...'')), s2))
      \<and> (ok r' \<and> body r' = Complete buffer \<and> JSON_parse p' buffer = Inr result'
          \<and> property (Some result') ''error'' = Inr err' \<and> truthy err'
          \<and> property err' ''code'' = Inr c' \<and> String c' = Inr cs'
          \<and> property err' ''message'' = Inr m' \<and> String m' = Inr ms' \<longrightarrow>
         callToolStream p' serverName' tool args s'
           = (Inl (Error (''Failed to call tool '' @ quote1 tool @ '' on '' @ serverName' @ '': ''
                    @ ''Tool Error ('' @ cs' @ ''): '' @ ms')), s2))
      \<and> (fetch p' (attempts s') \<lparr>req_url = lookup (servers (this s')) serverName',
              req_payload = call_request (requestId (this s')) tool args\<rparr> = Resolved r' \<longrightarrow>
         s2 = emit [Fetch \<lparr>req_url = lookup (servers (this s')) serverName',
                      req_payload = call_request (requestId (this s')) tool args\<rparr>]
                (next_id s')))"
  apply (intro conjI impI; elim conjE)
         apply (rule listTools_non_transient(1); assumption)
        apply (rule listTools_non_transient(2); assumption)
       apply (rule listTools_non_transient(3); assumption)
      apply (rule listTools_non_transient(4); assumption)
     apply (rule callToolStream_non_transient(1); assumption)
    apply (rule callToolStream_non_transient(2); assumption)
   apply (rule callToolStream_non_transient(3); assumption)
  apply (rule callToolStream_non_transient(4); assumption)
  done


text \<open>
  A 404, a body that is not JSON and the error envelope with code -32601, each as the
  answer to \<^verbatim>\<open>listTools\<close> and to \<^verbatim>\<open>callToolStream\<close>: one request is sent, nothing is slept,
  and the error thrown names the status, status text and body, or the parser's message,
  or the code and message. On the server that answers \<^verbatim>\<open>tools/list\<close> with its tools and
  \<^verbatim>\<open>tools/call\<close> with a 404, \<^verbatim>\<open>callToolStream\<close> fails with the 404 after one request.
\<close>

theorem non_transient_failures_not_retried_witness:
  "validateServerName (this start) ''aws-knowledge-mcp-server'' = Inr ()
   \<and> \<not> ok not_found \<and> response_text not_found = Inr ''no such route''
   \<and> listTools (answering [] not_found) ''aws-knowledge-mcp-server'' start
     = (Inl (Error (''Failed to fetch tools from aws-knowledge-mcp-server ''
               @ ''(https://knowledge-mcp.global.api.aws): ''
               @ ''HTTP 404: Not Found. Body: no such route'')),
        emit [Fetch \<lparr>req_url = aws, req_payload = tools_request 1\<rparr>] (next_id start))
   \<and> callToolStream (answering [] not_found) ''aws-knowledge-mcp-server'' ''search'' (JObj []) start
     = (Inl (Error (''Failed to call tool '' @ quote1 ''search'' @ '' on aws-knowledge-mcp-server: ''
               @ ''HTTP 404: Not Found. Body: no such route'')),
        emit [Fetch \<lparr>req_url = aws, req_payload = call_request 1 ''search'' (JObj [])\<rparr>]
          (next_id start))
   \<and> fetch only_listing 0 \<lparr>req_url = aws, req_payload = tools_request 1\<rparr> = Resolved ok_response
   \<and> fetch only_listing 0 \<lparr>req_url = aws, req_payload = call_request 1 ''search'' (JObj [])\<rparr>
     = Resolved not_found
   \<and> callToolStream only_listing ''aws-knowledge-mcp-server'' ''search'' (JObj []) start
     = (Inl (Error (''Failed to call tool '' @ quote1 ''search'' @ '' on aws-knowledge-mcp-server: ''
               @ ''HTTP 404: Not Found. Body: no such route'')),
        emit [Fetch \<lparr>req_url = aws, req_payload = call_request 1 ''search'' (JObj [])\<rparr>]
          (next_id start))
   \<and> ok garbage \<and> body garbage = Complete ''<html>''
   \<and> response_json (answering [] garbage) garbage = Inl (SyntaxError ''<html>'')
   \<and> JSON_parse (answering [] garbage) ''<html>'' = Inl (SyntaxError ''<html>'')
   \<and> listTools (answering [] garbage) ''aws-knowledge-mcp-server'' start
     = (Inl (Error (''Failed to fetch tools from aws-knowledge-mcp-server ''
               @ ''(https://knowledge-mcp.global.api.aws): ''
               @ ''Unexpected token '' @ quote1 ''<'' @ '', '' @ [CHR 0x22] @ ''<html>''
               @ [CHR 0x22] @ '' is not valid JSON'')),
        emit [Fetch \<lparr>req_url = aws, req_payload = tools_request 1\<rparr>] (next_id start))
   \<and> callToolStream (answering [] garbage) ''aws-knowledge-mcp-server'' ''search'' (JObj []) start
     = (Inl (Error (''Failed to call tool '' @ quote1 ''search'' @ '' on aws-knowledge-mcp-server: ''
               @ ''Invalid JSON response: Unexpected token '' @ quote1 ''<'' @ '', ''
               @ [CHR 0x22] @ ''<html>'' @ [CHR 0x22] @ '' is not valid JSON''
               @ ''. Response: <html>...'')),
        emit [Fetch \<lparr>req_url = aws, req_payload = call_request 1 ''search'' (JObj [])\<rparr>]
          (next_id start))
   \<and> ok error_response
   \<and> response_json (answering [rpc_failure] error_response) error_response = Inr rpc_failure
   \<and> String (Some (JNum (- 32601))) = Inr ''-32601''
   \<and> listTools (answering [rpc_failure] error_response) ''aws-knowledge-mcp-server'' start
     = (Inl (Error (''Failed to fetch tools from aws-knowledge-mcp-server ''
               @ ''(https://knowledge-mcp.global.api.aws): ''
               @ ''JSON-RPC Error (-32601): Method not found'')),
        emit [Fetch \<lparr>req_url = aws, req_payload = tools_request 1\<rparr>] (next_id start))
   \<and> callToolStream (answering [rpc_failure] error_response) ''aws-knowledge-mcp-server''
         ''search'' (JObj []) start
     = (Inl (Error (''Failed to call tool '' @ quote1 ''search'' @ '' on aws-knowledge-mcp-server: ''
               @ ''Tool Error (-32601): Method not found'')),
        emit [Fetch \<lparr>req_url = aws, req_payload = call_request 1 ''search'' (JObj [])\<rparr>]
          (next_id start))"
proof -
  let ?name = "''aws-knowledge-mcp-server''"
  let ?list = "\<lparr>req_url = aws, req_payload = tools_request 1\<rparr>"
  let ?call = "\<lparr>req_url = aws, req_payload = call_request 1 ''search'' (JObj [])\<rparr>"
  have answered: "makeRequest (answering known r) (lookup (servers (this start)) ?name)
      payload 0 (next_id start)
      = (Inr r, emit [Fetch \<lparr>req_url = aws, req_payload = payload\<rparr>] (next_id start))"
    for known r payload
    by (simp add: makeRequest_Resolved)
  have routes: "fetch only_listing 0 ?list = Resolved ok_response"
    "fetch only_listing 0 ?call = Resolved not_found"
    by (simp_all add: only_listing_def tools_request_def call_request_def)
  have routed: "makeRequest only_listing (lookup (servers (this start)) ?name)
      (call_request (requestId (this start)) ''search'' (JObj [])) 0 (next_id start)
      = (Inr not_found, emit [Fetch ?call] (next_id start))"
    using routes(2) by (simp add: makeRequest_Resolved)
  have valid: "validateServerName (this start) ?name = Inr ()"
    by simp
  note list = non_transient_failures_not_retried
    [THEN conjunct1, THEN mp, OF conjI, OF valid answered]
  note call = non_transient_failures_not_retried
    [THEN conjunct2, THEN mp, OF conjI, OF valid answered]
  note other = non_transient_failures_not_retried
    [THEN conjunct2, THEN mp, OF conjI, OF valid routed]
  have url: "String_member aws = ''https://knowledge-mcp.global.api.aws''"
    by (simp add: aws_def)
  have a: "\<not> ok not_found" "response_text not_found = Inr ''no such route''"
    by (simp_all add: ok_def not_found_def response_text_def)
  have a': "Number_toString (status not_found) = ''404''" "statusText not_found = ''Not Found''"
    by (simp_all add: not_found_def Number_toString_def digit_def)
  have b: "ok garbage" "body garbage = Complete ''<html>''"
    "response_json (answering [] garbage) garbage = Inl (SyntaxError ''<html>'')"
    "JSON_parse (answering [] garbage) ''<html>'' = Inl (SyntaxError ''<html>'')"
    by (simp_all add: ok_def garbage_def response_json_def response_text_def)
  have b': "message_or_error (SyntaxError ''<html>'')
      = ''Unexpected token '' @ quote1 ''<'' @ '', '' @ [CHR 0x22] @ ''<html>''
        @ [CHR 0x22] @ '' is not valid JSON''"
    by (simp add: message_or_error_def SyntaxError_def)
  let ?err = "Some (JObj [(''code'', JNum (- 32601)), (''message'', JStr ''Method not found'')])"
  have c: "ok error_response"
    "response_json (answering [rpc_failure] error_response) error_response = Inr rpc_failure"
    "String (Some (JNum (- 32601))) = Inr ''-32601''"
    by (simp_all add: ok_def error_response_def response_json_def response_text_def
        String_def Number_toString_def digit_def)
  have d: "property (Some rpc_failure) ''error'' = Inr ?err" "truthy ?err"
    "property ?err ''code'' = Inr (Some (JNum (- 32601)))"
    "String (Some (JNum (- 32601))) = Inr ''-32601''"
    "property ?err ''message'' = Inr (Some (JStr ''Method not found''))"
    "String (Some (JStr ''Method not found'')) = Inr ''Method not found''"
    by (simp_all add: rpc_failure_def String_def Number_toString_def digit_def)
  have c': "body error_response = Complete (JSON_stringify rpc_failure)"
    "JSON_parse (answering [rpc_failure] error_response) (JSON_stringify rpc_failure)
      = Inr rpc_failure"
    by (simp_all add: error_response_def)
  have envelope_list: "ok error_response
      \<and> response_json (answering [rpc_failure] error_response) error_response = Inr rpc_failure
      \<and> property (Some rpc_failure) ''error'' = Inr ?err \<and> truthy ?err
      \<and> property ?err ''code'' = Inr (Some (JNum (- 32601)))
      \<and> String (Some (JNum (- 32601))) = Inr ''-32601''
      \<and> property ?err ''message'' = Inr (Some (JStr ''Method not found''))
      \<and> String (Some (JStr ''Method not found'')) = Inr ''Method not found''"
    using c(1,2) d by blast
  have envelope_call: "ok error_response
      \<and> body error_response = Complete (JSON_stringify rpc_failure)
      \<and> JSON_parse (answering [rpc_failure] error_response) (JSON_stringify rpc_failure)
        = Inr rpc_failure
      \<and> property (Some rpc_failure) ''error'' = Inr ?err \<and> truthy ?err
      \<and> property ?err ''code'' = Inr (Some (JNum (- 32601)))
      \<and> String (Some (JNum (- 32601))) = Inr ''-32601''
      \<and> property ?err ''message'' = Inr (Some (JStr ''Method not found''))
      \<and> String (Some (JStr ''Method not found'')) = Inr ''Method not found''"
    using c(1) c' d by blast
  have 1: "listTools (answering [] not_found) ?name start
     = (Inl (Error (''Failed to fetch tools from aws-knowledge-mcp-server ''
               @ ''(https://knowledge-mcp.global.api.aws): ''
               @ ''HTTP 404: Not Found. Body: no such route'')), emit [Fetch ?list] (next_id start))"
    using list [THEN conjunct1, THEN mp, OF conjI, OF a]
    by (simp add: url a')
  have 2: "callToolStream (answering [] not_found) ?name ''search'' (JObj []) start
     = (Inl (Error (''Failed to call tool '' @ quote1 ''search'' @ '' on aws-knowledge-mcp-server: ''
               @ ''HTTP 404: Not Found. Body: no such route'')), emit [Fetch ?call] (next_id start))"
    using call [THEN conjunct1, THEN mp, OF conjI, OF a]
    by (simp add: a')
  have 3: "callToolStream only_listing ?name ''search'' (JObj []) start
     = (Inl (Error (''Failed to call tool '' @ quote1 ''search'' @ '' on aws-knowledge-mcp-server: ''
               @ ''HTTP 404: Not Found. Body: no such route'')), emit [Fetch ?call] (next_id start))"
    using other [THEN conjunct1, THEN mp, OF conjI, OF a]
    by (simp add: a')
  have 4: "listTools (answering [] garbage) ?name start
     = (Inl (Error (''Failed to fetch tools from aws-knowledge-mcp-server ''
               @ ''(https://knowledge-mcp.global.api.aws): ''
               @ ''Unexpected token '' @ quote1 ''<'' @ '', '' @ [CHR 0x22] @ ''<html>''
               @ [CHR 0x22] @ '' is not valid JSON'')), emit [Fetch ?list] (next_id start))"
    using list [THEN conjunct2, THEN conjunct1, THEN mp, OF conjI, OF b(1) b(3)]
    by (simp add: url b')
  have 5: "callToolStream (answering [] garbage) ?name ''search'' (JObj []) start
     = (Inl (Error (''Failed to call tool '' @ quote1 ''search'' @ '' on aws-knowledge-mcp-server: ''
               @ ''Invalid JSON response: Unexpected token '' @ quote1 ''<'' @ '', ''
               @ [CHR 0x22] @ ''<html>'' @ [CHR 0x22] @ '' is not valid JSON''
               @ ''. Response: <html>...'')), emit [Fetch ?call] (next_id start))"
    using call [THEN conjunct2, THEN conjunct1, THEN mp, OF conjI, OF b(1) conjI, OF b(2) b(4)]
    by (simp add: b')
  have 6: "listTools (answering [rpc_failure] error_response) ?name start
     = (Inl (Error (''Failed to fetch tools from aws-knowledge-mcp-server ''
               @ ''(https://knowledge-mcp.global.api.aws): ''
               @ ''JSON-RPC Error (-32601): Method not found'')), emit [Fetch ?list] (next_id start))"
    using list [THEN conjunct2, THEN conjunct2, THEN conjunct1, THEN mp, OF envelope_list]
    by (simp add: url)
  have 7: "callToolStream (answering [rpc_failure] error_response) ?name ''search'' (JObj []) start
     = (Inl (Error (''Failed to call tool '' @ quote1 ''search'' @ '' on aws-knowledge-mcp-server: ''
               @ ''Tool Error (-32601): Method not found'')), emit [Fetch ?call] (next_id start))"
    using call [THEN conjunct2, THEN conjunct2, THEN conjunct1, THEN mp, OF envelope_call]
    by simp
  show ?thesis
    using valid a routes 1 2 3 b 4 5 c 6 7 by blast
qed

section \<open>Request ids\<close>

lemma id_of_requests [simp]:
  "id_of (tools_request i) = [i]"
  "id_of (call_request i tool args) = [i]"
  by (simp_all add: id_of_def tools_request_def call_request_def)

lemma request_ids_Fetch [simp]: "request_ids [Fetch req] = id_of (req_payload req)"
  by (simp add: request_ids_def)







lemma run_snoc [simp]: "run p (cs @ [c]) s = perform p c (run p cs s)"
  by (simp add: run_def)

lemma run_Nil [simp]: "run p [] s = s"
  by (simp add: run_def)

lemma fresh_simps [simp]:
  "trace (fresh sv opts) = []" "requestId (this (fresh sv opts)) = 1"
  by (simp_all add: fresh_def constructor_def)





end
